theory Spec2Isabelle
  imports Main
begin

section \<open>Host values: strings, numbers, errors\<close>

text \<open>
  A JavaScript string is modelled as the list of the bytes of its UTF-8 encoding, so that
  the few non-ASCII characters of the program text (u-umlaut \<open>C3 BC\<close>, the en dash
  \<open>E2 80 93\<close>) are ordinary list elements. For well-formed strings
  \<open>String.prototype.includes\<close> is then containment of a contiguous sublist.
\<close>

text \<open>Thrown values. Every \<open>throw\<close> of the module and every rejection of an awaited
  promise is an \<open>Inl\<close> of this type.\<close>

datatype js_error =
    Error string
  | TypeError string
  | SyntaxError string
  | ReferenceError string

fun message :: "js_error \<Rightarrow> string" where
  "message (Error m) = m"
| "message (TypeError m) = m"
| "message (SyntaxError m) = m"
| "message (ReferenceError m) = m"

fun error_name :: "js_error \<Rightarrow> string" where
  "error_name (Error m) = ''Error''"
| "error_name (TypeError m) = ''TypeError''"
| "error_name (SyntaxError m) = ''SyntaxError''"
| "error_name (ReferenceError m) = ''ReferenceError''"

text \<open>\<open>String(e.message || e)\<close>: the message when it is non-empty, otherwise the
  rendering of the error object, which for an empty message is its name.\<close>

definition error_text :: "js_error \<Rightarrow> string" where
  "error_text e = (if message e \<noteq> [] then message e else error_name e)"

text \<open>
  \<open>SYLLABI_CACHE_TTL_MS = Number(process.env.SYLLABI_CACHE_TTL_MS || 15 * 60 * 1000)\<close> is a
  JavaScript number: \<open>Number\<close> of an arbitrary environment string may be \<open>NaN\<close> or
  infinite. A finite value is represented by its ceiling, which leaves every comparison with
  the integer age \<open>now - fetchedAt\<close> unchanged.
\<close>

datatype jsnum = NaN | NegInfinity | Finite int | PosInfinity

text \<open>\<open>(now - fetchedAt) < SYLLABI_CACHE_TTL_MS\<close>\<close>

fun age_lt :: "int \<Rightarrow> jsnum \<Rightarrow> bool" where
  "age_lt a NaN = False"
| "age_lt a NegInfinity = False"
| "age_lt a (Finite t) = (a < t)"
| "age_lt a PosInfinity = True"

text \<open>\<open>(now - fetchedAt) >= SYLLABI_CACHE_TTL_MS\<close>, the wording of the specification for
  a stale entry. The code never evaluates it: it refreshes whenever \<open>age_lt\<close> is false.\<close>

fun age_ge :: "int \<Rightarrow> jsnum \<Rightarrow> bool" where
  "age_ge a NaN = False"
| "age_ge a NegInfinity = True"
| "age_ge a (Finite t) = (t \<le> a)"
| "age_ge a PosInfinity = False"

text \<open>Decimal rendering of a natural number (the HTTP status inside an error message).\<close>

fun show_nat :: "nat \<Rightarrow> string" where
  "show_nat n =
     (if n < 10 then [''0123456789'' ! n]
      else show_nat (n div 10) @ [''0123456789'' ! (n mod 10)])"

declare show_nat.simps [simp del]

text \<open>\<open>t.includes(a)\<close>: \<open>a\<close> occurs in \<open>t\<close> as a contiguous run.\<close>

fun starts_with :: "string \<Rightarrow> string \<Rightarrow> bool" where
  "starts_with t [] = True"
| "starts_with [] (c # a) = False"
| "starts_with (d # t) (c # a) = (d = c \<and> starts_with t a)"

fun str_includes :: "string \<Rightarrow> string \<Rightarrow> bool" where
  "str_includes [] a = (a = [])"
| "str_includes (d # t) a = (starts_with (d # t) a \<or> str_includes t a)"

text \<open>\<open>xs.join(sep)\<close> on an array of strings.\<close>

fun join :: "string \<Rightarrow> string list \<Rightarrow> string" where
  "join sep [] = []"
| "join sep [x] = x"
| "join sep (x # y # ys) = x @ sep @ join sep (y # ys)"


section \<open>The syllabus index and the cache\<close>

text \<open>
  The parsed index document: an object whose keys are course names and whose values carry
  an optional \<open>aliases\<close> array of strings and an optional \<open>syllabus_url\<close> string. It
  is kept as the list that \<open>Object.entries\<close> enumerates, because detection depends on that
  order; \<open>Object.keys\<close> is the list of first components. (The host enumerates the names
  that are canonical array indices first, in ascending numeric order, and every other name in
  the order of the document.) A document that parses to a value of another shape is outside
  this model.
\<close>

record course_meta =
  aliases :: "string list option"
  syllabus_url :: "string option"

type_synonym course_index = "(string \<times> course_meta) list"

text \<open>\<open>{ value, fetchedAt }\<close>\<close>

record 'a cache_entry =
  cached_value :: 'a
  fetchedAt :: int

text \<open>
  The module-level \<open>syllabusCache\<close> (\<open>index\<close> and \<open>byUrl\<close>), together with the list of
  URLs handed to \<open>fetch\<close> so far. The list is an observation of the effects, not program
  data: a call that leaves it unchanged did not invoke the fetcher.
\<close>

record server_state =
  index_entry :: "course_index option cache_entry"
  byUrl :: "string \<rightharpoonup> string cache_entry"
  fetch_log :: "string list"

definition initial_state :: server_state where
  "initial_state =
     \<lparr> index_entry = \<lparr> cached_value = None, fetchedAt = 0 \<rparr>,
       byUrl = Map.empty,
       fetch_log = [] \<rparr>"

text \<open>What \<open>fetch(url, {method: "GET"})\<close> and the reading of the body yield: a rejection
  (network failure), or a response with a status and a body text.\<close>

datatype http_response = Rejected string | Response nat string

definition ok :: "nat \<Rightarrow> bool" where
  "ok st = (200 \<le> st \<and> st \<le> 299)"

text \<open>A message of a conversation as the handler sees it after \<open>express.json()\<close>: an
  array element that is not an object (\<open>null\<close>, a number, ...) or an object whose
  \<open>role\<close> and \<open>content\<close> properties are each absent or a string. The handler reads
  nothing else of an entry, and compares \<open>role\<close> with \<open>"user"\<close> only.\<close>

datatype entry = NonObject | Entry "string option" "string option"

fun role_of :: "entry \<Rightarrow> string option" where
  "role_of NonObject = None"
| "role_of (Entry r c) = r"

fun content_of :: "entry \<Rightarrow> string option" where
  "content_of NonObject = None"
| "content_of (Entry r c) = c"

text \<open>The answer of the chat-completion endpoint: the request or the decoding of its body
  rejects, the status is not a success, or a body whose
  \<open>choices?.[0]?.message?.content\<close> is a string or missing.\<close>

datatype completion = CompletionRejected js_error | CompletionNotOk nat string
  | CompletionBody "string option"

text \<open>
  Everything one request depends on besides the cache: the module constants read from the
  process environment, the built-ins of the host whose tables are not part of the program
  (\<open>toLowerCase\<close>, \<open>JSON.parse\<close>), the clock readings of \<open>Date.now()\<close> inside
  \<open>getSyllabiIndex\<close> and \<open>getSyllabusText\<close>, the three \<open>Intl.DateTimeFormat\<close>
  renderings of the request time, and the answers of the outside world. \<open>fetch env n url\<close>
  is the answer to the fetch of \<open>url\<close> issued after \<open>n\<close> earlier fetches.
\<close>

record env =
  PROVIDER :: string
  SYLLABI_INDEX_URL :: "string option"
  SYLLABI_CACHE_TTL_MS :: jsnum
  toLowerCase :: "string \<Rightarrow> string"
  JSON_parse :: "string \<Rightarrow> js_error + course_index"
  fetch :: "nat \<Rightarrow> string \<Rightarrow> http_response"
  now_index :: int
  now_syllabus :: int
  viennaWeekday :: string
  viennaDate :: string
  viennaTime :: string
  openai :: "entry list \<Rightarrow> completion"

text \<open>\<open>fetchText(url)\<close>\<close>

definition fetchText :: "env \<Rightarrow> string \<Rightarrow> server_state \<Rightarrow> (js_error + string) \<times> server_state" where
  "fetchText e url st =
     (let st' = st \<lparr> fetch_log := fetch_log st @ [url] \<rparr> in
      case fetch e (length (fetch_log st)) url of
        Rejected m \<Rightarrow> (Inl (TypeError m), st')
      | Response code text \<Rightarrow>
          if \<not> ok code
          then (Inl (Error (''Failed to fetch '' @ url @ '': '' @ show_nat code)), st')
          else (Inr text, st'))"

text \<open>The tail of \<open>getSyllabiIndex\<close> after a cache miss: fetch, parse, store.\<close>

definition refresh_index ::
  "env \<Rightarrow> int \<Rightarrow> string \<Rightarrow> server_state \<Rightarrow> (js_error + course_index) \<times> server_state" where
  "refresh_index e now url st =
     (case fetchText e url st of
        (Inl err, st1) \<Rightarrow> (Inl err, st1)
      | (Inr raw, st1) \<Rightarrow>
          (case JSON_parse e raw of
             Inl err \<Rightarrow> (Inl err, st1)
           | Inr parsed \<Rightarrow>
               (Inr parsed,
                st1 \<lparr> index_entry := \<lparr> cached_value = Some parsed, fetchedAt = now \<rparr> \<rparr>)))"

text \<open>\<open>getSyllabiIndex()\<close>, with \<open>now\<close> the value of \<open>Date.now()\<close>. An unset or empty
  \<open>SYLLABI_INDEX_URL\<close> is falsy and throws before the cache is looked at.\<close>

definition getSyllabiIndex ::
  "env \<Rightarrow> int \<Rightarrow> server_state \<Rightarrow> (js_error + course_index) \<times> server_state" where
  "getSyllabiIndex e now st =
     (case SYLLABI_INDEX_URL e of
        None \<Rightarrow> (Inl (Error ''Missing SYLLABI_INDEX_URL env var''), st)
      | Some url \<Rightarrow>
          if url = [] then (Inl (Error ''Missing SYLLABI_INDEX_URL env var''), st)
          else (case cached_value (index_entry st) of
                  Some v \<Rightarrow>
                    if age_lt (now - fetchedAt (index_entry st)) (SYLLABI_CACHE_TTL_MS e)
                    then (Inr v, st)
                    else refresh_index e now url st
                | None \<Rightarrow> refresh_index e now url st))"

text \<open>The tail of \<open>getSyllabusText\<close> after a cache miss.\<close>

definition refresh_syllabus ::
  "env \<Rightarrow> int \<Rightarrow> string \<Rightarrow> server_state \<Rightarrow> (js_error + string) \<times> server_state" where
  "refresh_syllabus e now url st =
     (case fetchText e url st of
        (Inl err, st1) \<Rightarrow> (Inl err, st1)
      | (Inr text, st1) \<Rightarrow>
          (Inr text,
           st1 \<lparr> byUrl := (byUrl st1)(url \<mapsto> \<lparr> cached_value = text, fetchedAt = now \<rparr>) \<rparr>))"

text \<open>\<open>getSyllabusText(url)\<close>\<close>

definition getSyllabusText ::
  "env \<Rightarrow> int \<Rightarrow> string \<Rightarrow> server_state \<Rightarrow> (js_error + string) \<times> server_state" where
  "getSyllabusText e now url st =
     (case byUrl st url of
        Some cached \<Rightarrow>
          if age_lt (now - fetchedAt cached) (SYLLABI_CACHE_TTL_MS e)
          then (Inr (cached_value cached), st)
          else refresh_syllabus e now url st
      | None \<Rightarrow> refresh_syllabus e now url st)"


section \<open>Course detection\<close>

text \<open>\<open>meta.aliases || []\<close>\<close>

definition declared_aliases :: "course_meta \<Rightarrow> string list" where
  "declared_aliases m = (case aliases m of None \<Rightarrow> [] | Some as \<Rightarrow> as)"

text \<open>\<open>[courseName, ...(meta.aliases || [])].map(s => String(s).toLowerCase()).filter(Boolean)\<close>\<close>

definition alias_list :: "(string \<Rightarrow> string) \<Rightarrow> string \<Rightarrow> course_meta \<Rightarrow> string list" where
  "alias_list lower courseName m =
     filter (\<lambda>a. a \<noteq> []) (map lower (courseName # declared_aliases m))"

text \<open>The \<open>for\<close> loop of \<open>findCourseFromUserText\<close> over \<open>Object.entries(indexObj)\<close>, with
  \<open>t\<close> the lowercased text.\<close>

fun find_course_loop :: "(string \<Rightarrow> string) \<Rightarrow> string \<Rightarrow> course_index \<Rightarrow> string option" where
  "find_course_loop lower t [] = None"
| "find_course_loop lower t ((courseName, m) # rest) =
     (if list_ex (\<lambda>a. str_includes t a) (alias_list lower courseName m) then Some courseName
      else find_course_loop lower t rest)"

text \<open>\<open>findCourseFromUserText(indexObj, userText)\<close>; \<open>None\<close> is \<open>null\<close>.\<close>

definition findCourseFromUserText ::
  "(string \<Rightarrow> string) \<Rightarrow> course_index \<Rightarrow> string \<Rightarrow> string option" where
  "findCourseFromUserText lower indexObj userText =
     find_course_loop lower (lower userText) indexObj"

text \<open>
  The keyword test \<open>/pr\<dots>fung|exam|\<dots>|time/i.test(lastUserText)\<close>. The pattern is an
  alternation of literals, so the test succeeds iff one of them occurs in the text up to
  case. Its characters are ASCII letters and u-umlaut; the case-insensitive canonicalisation
  of the host equates an ASCII letter only with its other case and u-umlaut (\<open>C3 BC\<close>) only
  with its capital (\<open>C3 9C\<close>), which is what \<open>regex_fold\<close> undoes on the text.
\<close>

definition ascii_lower :: "char \<Rightarrow> char" where
  "ascii_lower c =
     (if 65 \<le> (of_char c :: nat) \<and> (of_char c :: nat) \<le> 90
      then char_of ((of_char c :: nat) + 32) else c)"

fun regex_fold :: "string \<Rightarrow> string" where
  "regex_fold [] = []"
| "regex_fold [c] = [ascii_lower c]"
| "regex_fold (c # d # cs) =
     (if c = CHR 0xC3 \<and> d = CHR 0x9C then CHR 0xC3 # CHR 0xBC # regex_fold cs
      else ascii_lower c # regex_fold (d # cs))"

definition keyword_list :: "string list" where
  "keyword_list =
     [''pr'' @ [CHR 0xC3, CHR 0xBC] @ ''fung'', ''exam'', ''deadline'', ''anmeldung'',
      ''registration'', ''note'', ''grading'', ''bewertung'', ''attendance'',
      ''anwesenheit'', ''raum'', ''room'', ''termin'', ''date'', ''uhrzeit'', ''time'']"

definition needsCourse :: "string \<Rightarrow> bool" where
  "needsCourse text = list_ex (\<lambda>k. str_includes (regex_fold text) k) keyword_list"


section \<open>The model client\<close>

text \<open>\<open>callLLM(messages)\<close>: the provider check, then one request to the chat-completion
  endpoint; \<open>data.choices?.[0]?.message?.content ?? ""\<close> on success.\<close>

definition callLLM :: "env \<Rightarrow> entry list \<Rightarrow> js_error + string" where
  "callLLM e messages =
     (if PROVIDER e \<noteq> ''openai''
      then Inl (Error (''Unsupported PROVIDER='' @ PROVIDER e @ ''. Set PROVIDER=openai.''))
      else (case openai e messages of
              CompletionRejected err \<Rightarrow> Inl err
            | CompletionNotOk code text \<Rightarrow> Inl (Error ''OpenAI API error'')
            | CompletionBody c \<Rightarrow> Inr (case c of None \<Rightarrow> [] | Some s \<Rightarrow> s)))"


section \<open>HTTP handlers\<close>

text \<open>The JSON bodies the handlers send, and a reply with its status. \<open>res.json\<close> without
  \<open>res.status\<close> sends status 200.\<close>

datatype body =
    Reply string
  | ErrorBody string
  | SyllabiOk "string list"
  | SyllabiFail string

datatype http_reply = HttpReply nat body

fun status :: "http_reply \<Rightarrow> nat" where
  "status (HttpReply s b) = s"

text \<open>\<open>GET /debug/syllabi-index\<close>\<close>

definition debug_syllabi_index :: "env \<Rightarrow> server_state \<Rightarrow> http_reply \<times> server_state" where
  "debug_syllabi_index e st =
     (case getSyllabiIndex e (now_index e) st of
        (Inr idx, st') \<Rightarrow> (HttpReply 200 (SyllabiOk (map fst idx)), st')
      | (Inl err, st') \<Rightarrow> (HttpReply 500 (SyllabiFail (error_text err)), st'))"

text \<open>
  What the chat handler finds in \<open>req.body\<close>: \<open>undefined\<close>, when no body was parsed for
  the request (whether that can happen depends on the version of the framework, so the
  handler is modelled for it); a parsed value whose \<open>messages\<close> property is not an array
  (\<open>undefined\<close> included); or a parsed value whose \<open>messages\<close> is an array.
\<close>

datatype req_body = Unparsed | NotAnArray | Array "entry list"

text \<open>\<open>const { messages } = req.body\<close>: destructuring \<open>undefined\<close> throws; otherwise the
  result is the array, or \<open>None\<close> for a value that \<open>Array.isArray\<close> refuses.\<close>

definition read_messages :: "req_body \<Rightarrow> js_error + entry list option" where
  \<open>read_messages body =
     (case body of
        Unparsed \<Rightarrow>
          Inl (TypeError ''Cannot destructure property 'messages' of 'req.body' as it is undefined.'')
      | NotAnArray \<Rightarrow> Inr None
      | Array messages \<Rightarrow> Inr (Some messages))\<close>

text \<open>\<open>[...messages].reverse().find(m => m?.role === "user")\<close> and
  \<open>(lastUser?.content || "").toString()\<close>\<close>

definition lastUser :: "entry list \<Rightarrow> entry option" where
  "lastUser messages = find (\<lambda>m. role_of m = Some ''user'') (rev messages)"

definition lastUserText :: "entry list \<Rightarrow> string" where
  "lastUserText messages =
     (case lastUser messages of
        None \<Rightarrow> []
      | Some m \<Rightarrow> (case content_of m of None \<Rightarrow> [] | Some s \<Rightarrow> s))"

definition system_message :: "string \<Rightarrow> entry" where
  "system_message text = Entry (Some ''system'') (Some text)"

definition syllabusContextMessage :: "string \<Rightarrow> string \<Rightarrow> entry" where
  \<open>syllabusContextMessage detectedCourse syllabusText =
     system_message
       (''Authoritative syllabus (use this first). Course: '' @ detectedCourse @ ''\<newline>'' @
        ''Rules:\<newline>'' @
        ''- For organizational questions, answer ONLY if the answer is in this syllabus text.\<newline>'' @
        ''- If not in syllabus, say so and ask one clarifying question or suggest checking official Uni Wien pages.\<newline>\<newline>'' @
        syllabusText)\<close>

definition runtimeContextMessage :: "env \<Rightarrow> string \<Rightarrow> entry" where
  \<open>runtimeContextMessage e lastText =
     system_message
       (''Runtime context (authoritative):\<newline>'' @
        ''- Timezone: Europe/Vienna\<newline>'' @
        ''- Today: '' @ viennaWeekday e @ '', '' @ viennaDate e @ ''\<newline>'' @
        ''- Current time: '' @ viennaTime e @ ''\<newline>'' @
        ''Rules:\<newline>'' @
        ''- If ANY prior message (including assistant messages) conflicts with the runtime context, correct it.\<newline>'' @
        ''- Interpret "today/tomorrow/next week" using the runtime date.\<newline>'' @
        ''- Reply in the same language as the user's last message.\<newline>'' @
        ''User last message:\<newline>'' @ lastText @ ''\<newline>'')\<close>

definition systemMessage :: entry where
  \<open>systemMessage =
     system_message
       (''You are the official student assistant for the Chair of Technology and Innovation Management (TIM).\<newline>\<newline>'' @
        ''Institutional context:\<newline>'' @
        ''- Chair: Technology and Innovation Management (TIM)\<newline>'' @
        ''- Institute: Institut f'' @ [CHR 0xC3, CHR 0xBC] @ ''r Rechnungswesen, Innovation und Strategie\<newline>'' @
        ''- Faculty: Faculty of Business, Economics and Statistics\<newline>'' @
        ''- University: University of Vienna\<newline>'' @
        ''- TIM offers multiple courses as part of one specialization within Business Administration, International Business, and related curricula.\<newline>\<newline>'' @
        ''Scope and authority:\<newline>'' @
        ''- You support students taking ANY TIM course.\<newline>'' @
        ''- You answer organizational and content-related questions reliably and confidently.\<newline>'' @
        ''- Organizational information must be grounded in the official syllabus first.\<newline>'' @
        ''- If information is not in the syllabus, it may be confirmed via official University of Vienna websites.\<newline>'' @
        ''- Never invent dates, rules, or requirements.\<newline>\<newline>'' @
        ''Course disambiguation rule:\<newline>'' @
        ''- If a question depends on a specific TIM course and the course is not clearly specified, ask ONE short clarifying question naming the relevant course options.\<newline>'' @
        ''- Do not guess which course the student means.\<newline>\<newline>'' @
        ''Answer policy:\<newline>'' @
        ''- If a question can be answered with available information, answer it immediately.\<newline>'' @
        ''- Do NOT ask follow-up questions unless essential information is missing.\<newline>'' @
        ''- For organizational questions, respond in 1'' @ [CHR 0xE2, CHR 0x80, CHR 0x93] @ ''2 short sentences.\<newline>'' @
        ''- For content-related questions, respond concisely but completely.\<newline>'' @
        ''- Avoid greetings, small talk, or closing questions.\<newline>'' @
        ''- Avoid hedging language (e.g., 'voraussichtlich', 'meistens') unless uncertainty is real and unavoidable.\<newline>\<newline>'' @
        ''Language and clarity:\<newline>'' @
        ''- Always reply in the language of the user's last message.\<newline>'' @
        ''- Use clear, student-friendly wording.\<newline>'' @
        ''- State facts directly and precisely.\<newline>\<newline>'' @
        ''Fallback behavior:\<newline>'' @
        ''- If information is not available or cannot be verified, say so explicitly and indicate where the student should check next (e.g., syllabus, official website, course coordinator).\<newline>'' @
        ''- Do not speculate.\<newline>\<newline>'' @
        ''Stop after the answer.'')\<close>

text \<open>The clarification reply of the short-circuit.\<close>

definition clarification :: "string list \<Rightarrow> string" where
  "clarification courseList =
     ''F'' @ [CHR 0xC3, CHR 0xBC] @ ''r welchen TIM-Kurs meinst du das? ('' @
     join '' / '' courseList @ '')''"

text \<open>What one run of the chat handler did: the reply sent, the argument of the call of
  \<open>callLLM\<close> if there was one, and the state left behind.\<close>

record chat_result =
  response :: http_reply
  llm_call :: "entry list option"
  final_state :: server_state

text \<open>\<open>const outbound = \<dots>; const reply = await callLLM(outbound); res.json({ reply })\<close>,
  with the \<open>catch\<close> of the handler around the call.\<close>

definition call_model :: "env \<Rightarrow> server_state \<Rightarrow> entry list \<Rightarrow> chat_result" where
  "call_model e st outbound =
     (case callLLM e outbound of
        Inr reply \<Rightarrow>
          \<lparr> response = HttpReply 200 (Reply reply), llm_call = Some outbound, final_state = st \<rparr>
      | Inl err \<Rightarrow>
          \<lparr> response = HttpReply 500 (ErrorBody ''Server error''), llm_call = Some outbound,
            final_state = st \<rparr>)"

text \<open>The two shapes of \<open>outbound\<close>.\<close>

definition outbound_of :: "env \<Rightarrow> entry list \<Rightarrow> entry option \<Rightarrow> entry list" where
  "outbound_of e messages syl =
     (case syl of
        Some s \<Rightarrow> runtimeContextMessage e (lastUserText messages) # systemMessage # s # messages
      | None \<Rightarrow> runtimeContextMessage e (lastUserText messages) # systemMessage # messages)"

text \<open>\<open>if (detectedCourse) { \<dots> }\<close>: the block that may set \<open>syllabusContextMessage\<close>. A
  detected name is truthy iff it is not the empty string; an error thrown by
  \<open>getSyllabusText\<close> is caught by the inner \<open>catch\<close> and leaves the message \<open>null\<close>.\<close>

definition load_syllabus ::
  "env \<Rightarrow> course_index \<Rightarrow> string option \<Rightarrow> server_state \<Rightarrow> entry option \<times> server_state" where
  "load_syllabus e indexObj detectedCourse st =
     (case detectedCourse of
        None \<Rightarrow> (None, st)
      | Some c \<Rightarrow>
          if c = [] then (None, st)
          else (case map_of indexObj c of
                  None \<Rightarrow> (None, st)
                | Some m \<Rightarrow>
                    (case syllabus_url m of
                       None \<Rightarrow> (None, st)
                     | Some url \<Rightarrow>
                         if url = [] then (None, st)
                         else (case getSyllabusText e (now_syllabus e) url st of
                                 (Inr syllabusText, st') \<Rightarrow>
                                   (Some (syllabusContextMessage c syllabusText), st')
                               | (Inl err, st') \<Rightarrow> (None, st')))))"

text \<open>\<open>!detectedCourse && needsCourse && courseList.length > 1\<close>\<close>

definition ambiguous :: "string option \<Rightarrow> string \<Rightarrow> course_index \<Rightarrow> bool" where
  "ambiguous detectedCourse text indexObj =
     ((detectedCourse = None \<or> detectedCourse = Some []) \<and> needsCourse text
      \<and> length (map fst indexObj) > 1)"

text \<open>The handler of \<open>POST /api/chat\<close> from the computation of \<open>lastUser\<close> to its end: the
  inner \<open>try\<close> that loads the index, detects the course, short-circuits with the
  clarification or loads the syllabus; then the assembly of \<open>outbound\<close> and the model
  call.\<close>

definition chat_body :: "env \<Rightarrow> server_state \<Rightarrow> entry list \<Rightarrow> chat_result" where
  "chat_body e st messages =
     (case getSyllabiIndex e (now_index e) st of
        (Inl err, st1) \<Rightarrow> call_model e st1 (outbound_of e messages None)
      | (Inr indexObj, st1) \<Rightarrow>
          (let detectedCourse = findCourseFromUserText (toLowerCase e) indexObj (lastUserText messages)
           in if ambiguous detectedCourse (lastUserText messages) indexObj
              then \<lparr> response = HttpReply 200 (Reply (clarification (map fst indexObj))),
                     llm_call = None, final_state = st1 \<rparr>
              else (case load_syllabus e indexObj detectedCourse st1 of
                      (syl, st2) \<Rightarrow> call_model e st2 (outbound_of e messages syl))))"

text \<open>
  The names bound at the top level of the module: its three imports, its constants and its
  function declarations. A reference to any other identifier that is not a global of the
  host throws \<open>ReferenceError\<close> when it is evaluated.
\<close>

definition module_scope :: "string list" where
  "module_scope =
     [''express'', ''cors'', ''dotenv'', ''app'', ''PORT'', ''PROVIDER'', ''SYLLABI_INDEX_URL'',
      ''SYLLABI_CACHE_TTL_MS'', ''syllabusCache'', ''fetchText'', ''getSyllabiIndex'',
      ''getSyllabusText'', ''findCourseFromUserText'', ''callLLM'']"

definition resolve :: "string \<Rightarrow> js_error + unit" where
  "resolve name =
     (if name \<in> set module_scope then Inr ()
      else Inl (ReferenceError (name @ '' is not defined'')))"

text \<open>
  \<open>app.post("/api/chat", \<dots>)\<close>. Everything is inside the outer \<open>try\<close>, whose
  \<open>catch\<close> answers 500 \<open>Server error\<close>: so does a throwing destructuring of
  \<open>req.body\<close>. After the array check the handler evaluates \<open>univieSemesterLabel(now)\<close>,
  whose value it never uses; the module declares no such function, so the evaluation throws
  and the outer \<open>catch\<close> answers 500.
\<close>

definition api_chat :: "env \<Rightarrow> server_state \<Rightarrow> req_body \<Rightarrow> chat_result" where
  "api_chat e st body =
     (case read_messages body of
        Inl err \<Rightarrow>
          \<lparr> response = HttpReply 500 (ErrorBody ''Server error''),
            llm_call = None, final_state = st \<rparr>
      | Inr None \<Rightarrow>
          \<lparr> response = HttpReply 400 (ErrorBody ''messages must be an array''),
            llm_call = None, final_state = st \<rparr>
      | Inr (Some messages) \<Rightarrow>
          (case resolve ''univieSemesterLabel'' of
             Inl err \<Rightarrow>
               \<lparr> response = HttpReply 500 (ErrorBody ''Server error''),
                 llm_call = None, final_state = st \<rparr>
           | Inr u \<Rightarrow> chat_body e st messages))"

section \<open>The specification's notion of a match, and concrete inputs\<close>

text \<open>
  The matching condition in the words of the specification: the course name or a declared
  alias, lowercased and not empty, is a substring of the lowercased text.
\<close>

definition course_matches :: "(string \<Rightarrow> string) \<Rightarrow> string \<Rightarrow> string \<times> course_meta \<Rightarrow> bool" where
  "course_matches lower text c =
     (\<exists>a \<in> set (fst c # declared_aliases (snd c)).
        lower a \<noteq> [] \<and> (\<exists>p s. lower text = p @ lower a @ s))"

text \<open>\<open>toLowerCase\<close> on ASCII texts, for running the model on concrete inputs.\<close>

definition lower_ascii :: "string \<Rightarrow> string" where
  "lower_ascii s = map ascii_lower s"

definition user_message :: "string \<Rightarrow> entry" where
  "user_message text = Entry (Some ''user'') (Some text)"

definition example_index :: course_index where
  "example_index =
     [(''Innovation Management'',
         \<lparr> aliases = Some [''INNO'', []], syllabus_url = Some ''https://example.org/inno.txt'' \<rparr>),
      (''Strategy'', \<lparr> aliases = Some [''strat'', ''inno''], syllabus_url = None \<rparr>)]"

text \<open>A configured server whose index and syllabus documents are served, and whose model
  endpoint answers.\<close>

definition example_env :: env where
  "example_env =
     \<lparr> PROVIDER = ''openai'',
       SYLLABI_INDEX_URL = Some ''https://example.org/index.json'',
       SYLLABI_CACHE_TTL_MS = Finite 900000,
       toLowerCase = lower_ascii,
       JSON_parse = (\<lambda>raw. if raw = ''INDEX'' then Inr example_index
                           else Inl (SyntaxError ''Unexpected token'')),
       fetch = (\<lambda>n url. if url = ''https://example.org/index.json'' then Response 200 ''INDEX''
                         else if url = ''https://example.org/inno.txt'' then Response 200 ''Exam: 30 June''
                         else Response 404 []),
       now_index = 1000000,
       now_syllabus = 1000005,
       viennaWeekday = ''Tuesday'',
       viennaDate = ''2026-11-03'',
       viennaTime = ''10:15'',
       openai = (\<lambda>messages. CompletionBody (Some ''ok'')) \<rparr>"

text \<open>A state whose index entry and one syllabus entry were stored at time 100000.\<close>

definition cached_state :: server_state where
  "cached_state =
     \<lparr> index_entry = \<lparr> cached_value = Some example_index, fetchedAt = 100000 \<rparr>,
       byUrl = [''https://example.org/inno.txt''
                  \<mapsto> \<lparr> cached_value = ''Exam: 1 June'', fetchedAt = 100000 \<rparr>],
       fetch_log = [] \<rparr>"

text \<open>The same server when every document request is answered 503, and when the index
  document is served but is not JSON.\<close>

definition unreachable_env :: env where
  "unreachable_env = example_env \<lparr> fetch := (\<lambda>n url. Response 503 ''Service Unavailable'') \<rparr>"

definition garbled_env :: env where
  "garbled_env = example_env \<lparr> fetch := (\<lambda>n url. Response 200 ''<html>'') \<rparr>"


text \<open>Variants of the example server: no index URL configured; another provider selected;
  the index served but the syllabus document missing.\<close>

definition unconfigured_env :: env where
  "unconfigured_env = example_env \<lparr> SYLLABI_INDEX_URL := None \<rparr>"

definition openrouter_env :: env where
  "openrouter_env = example_env \<lparr> PROVIDER := ''openrouter'' \<rparr>"

definition syllabus_missing_env :: env where
  "syllabus_missing_env =
     example_env \<lparr> fetch := (\<lambda>n url. if url = ''https://example.org/index.json''
                                      then Response 200 ''INDEX'' else Response 404 []) \<rparr>"

text \<open>An index whose only course has the empty string as its name.\<close>

definition unnamed_course_index :: course_index where
  "unnamed_course_index =
     [([], \<lparr> aliases = Some [''tim''], syllabus_url = Some ''https://example.org/tim.txt'' \<rparr>)]"

definition unnamed_course_env :: env where
  "unnamed_course_env =
     example_env \<lparr> JSON_parse := (\<lambda>raw. Inr unnamed_course_index),
                   fetch := (\<lambda>n url. Response 200 ''Exam: 30 June'') \<rparr>"


text \<open>
  "A course was detected and its syllabus text was retrievable", in the terms of the handler
  body: the index loads, detection returns a name that is not the empty string, the index
  entry of that name has a non-empty \<open>syllabus_url\<close>, and \<open>getSyllabusText\<close> returns
  the text.
\<close>

definition syllabus_retrieved ::
  "env \<Rightarrow> server_state \<Rightarrow> entry list \<Rightarrow> string \<Rightarrow> string \<Rightarrow> bool" where
  "syllabus_retrieved e st messages c syllabusText =
     (\<exists>indexObj st1 m url.
        getSyllabiIndex e (now_index e) st = (Inr indexObj, st1)
      \<and> findCourseFromUserText (toLowerCase e) indexObj (lastUserText messages) = Some c
      \<and> c \<noteq> [] \<and> map_of indexObj c = Some m \<and> syllabus_url m = Some url \<and> url \<noteq> []
      \<and> fst (getSyllabusText e (now_syllabus e) url st1) = Inr syllabusText)"


section \<open>Strings and detection\<close>

lemma starts_with_iff: "starts_with t a \<longleftrightarrow> (\<exists>s. t = a @ s)"
  by (induction t a rule: starts_with.induct) auto

lemma str_includes_iff: "str_includes t a \<longleftrightarrow> (\<exists>p s. t = p @ a @ s)"
proof (induction t)
  case Nil
  show ?case by simp
next
  case (Cons d t)
  show ?case
  proof
    assume "str_includes (d # t) a"
    then consider "starts_with (d # t) a" | "str_includes t a" by auto
    then show "\<exists>p s. d # t = p @ a @ s"
    proof cases
      case 1
      then obtain s where "d # t = a @ s" by (auto simp: starts_with_iff)
      then have "d # t = [] @ a @ s" by simp
      then show ?thesis by blast
    next
      case 2
      with Cons.IH obtain p s where "t = p @ a @ s" by blast
      then have "d # t = (d # p) @ a @ s" by simp
      then show ?thesis by blast
    qed
  next
    assume "\<exists>p s. d # t = p @ a @ s"
    then obtain p s where ps: "d # t = p @ a @ s" by blast
    show "str_includes (d # t) a"
    proof (cases p)
      case Nil
      with ps have "starts_with (d # t) a" by (auto simp: starts_with_iff)
      then show ?thesis by simp
    next
      case (Cons x p')
      with ps have "t = p' @ a @ s" by simp
      with Cons.IH have "str_includes t a" by blast
      then show ?thesis by simp
    qed
  qed
qed

text \<open>The test of one loop iteration is the specification's match.\<close>

lemma alias_hit_iff:
  "list_ex (\<lambda>a. str_includes (lower text) a) (alias_list lower (fst c) (snd c)) \<longleftrightarrow>
   course_matches lower text c"
  unfolding alias_list_def list_ex_iff str_includes_iff course_matches_def by auto

lemma alias_list_nonempty: "a \<in> set (alias_list lower n m) \<Longrightarrow> a \<noteq> []"
  unfolding alias_list_def set_filter by blast

lemma find_course_loop_None:
  "find_course_loop lower t idx = None \<longleftrightarrow>
   (\<forall>x \<in> set idx. \<not> list_ex (\<lambda>a. str_includes t a) (alias_list lower (fst x) (snd x)))"
  by (induction idx) (auto split: if_splits)

text \<open>The loop returns the name of the first entry whose test succeeds.\<close>

lemma find_course_loop_Some:
  "find_course_loop lower t idx = Some c \<longleftrightarrow>
   (\<exists>pre m post. idx = pre @ (c, m) # post
      \<and> list_ex (\<lambda>a. str_includes t a) (alias_list lower c m)
      \<and> (\<forall>x \<in> set pre. \<not> list_ex (\<lambda>a. str_includes t a) (alias_list lower (fst x) (snd x))))"
  (is "_ \<longleftrightarrow> ?first idx")
proof (induction idx)
  case Nil
  show ?case by simp
next
  case (Cons x idx)
  let ?hit = "\<lambda>x. list_ex (\<lambda>a. str_includes t a) (alias_list lower (fst x) (snd x))"
  obtain n m where x: "x = (n, m)" by (cases x)
  show ?case
  proof (cases "?hit (n, m)")
    case True
    have "?first ((n, m) # idx) \<longleftrightarrow> n = c"
    proof
      assume "?first ((n, m) # idx)"
      then obtain pre m' post where h: "(n, m) # idx = pre @ (c, m') # post"
        "\<forall>x \<in> set pre. \<not> ?hit x" by auto
      show "n = c"
      proof (cases pre)
        case Nil
        with h show ?thesis by simp
      next
        case (Cons y ys)
        with h have "y = (n, m)" by simp
        with Cons h(2) True show ?thesis by simp
      qed
    next
      assume "n = c"
      then have "(n, m) # idx = [] @ (c, m) # idx" by simp
      moreover have "\<forall>x \<in> set []. \<not> ?hit x" by simp
      moreover have "list_ex (\<lambda>a. str_includes t a) (alias_list lower c m)"
        using True \<open>n = c\<close> by simp
      ultimately show "?first ((n, m) # idx)" by blast
    qed
    with True x show ?thesis by auto
  next
    case False
    have "?first ((n, m) # idx) \<longleftrightarrow> ?first idx"
    proof
      assume "?first ((n, m) # idx)"
      then obtain pre m' post where h: "(n, m) # idx = pre @ (c, m') # post"
        "list_ex (\<lambda>a. str_includes t a) (alias_list lower c m')"
        "\<forall>x \<in> set pre. \<not> ?hit x" by auto
      show "?first idx"
      proof (cases pre)
        case Nil
        with h False show ?thesis by simp
      next
        case (Cons y ys)
        with h have "idx = ys @ (c, m') # post" "\<forall>x \<in> set ys. \<not> ?hit x" by simp_all
        with h(2) show ?thesis by blast
      qed
    next
      assume "?first idx"
      then obtain pre m' post where h: "idx = pre @ (c, m') # post"
        "list_ex (\<lambda>a. str_includes t a) (alias_list lower c m')"
        "\<forall>x \<in> set pre. \<not> ?hit x" by auto
      have "(n, m) # idx = ((n, m) # pre) @ (c, m') # post" using h(1) by simp
      moreover have "\<forall>x \<in> set ((n, m) # pre). \<not> ?hit x" using h(3) False by simp
      ultimately show "?first ((n, m) # idx)" using h(2) by blast
    qed
    with False x Cons.IH show ?thesis by simp
  qed
qed

lemma find_course_loop_empty: "find_course_loop lower [] idx = None"
proof (induction idx)
  case Nil
  show ?case by simp
next
  case (Cons x idx)
  obtain n m where x: "x = (n, m)" by (cases x)
  have "\<not> list_ex (\<lambda>a. str_includes [] a) (alias_list lower n m)"
    by (auto simp add: list_ex_iff dest: alias_list_nonempty)
  then have "find_course_loop lower [] ((n, m) # idx) = find_course_loop lower [] idx"
    by (simp only: find_course_loop.simps if_False)
  with Cons x show ?case by simp
qed

lemma findCourse_empty_text:
  "lower [] = [] \<Longrightarrow> findCourseFromUserText lower idx [] = None"
  by (simp add: findCourseFromUserText_def find_course_loop_empty)

text \<open>Substring matching has no word boundaries: against courses named \<open>A\<close> and \<open>B\<close>
  the text \<open>When is the exam?\<close> detects \<open>A\<close>, through the \<open>a\<close> of \<open>exam\<close>.\<close>

lemma one_letter_course_name_matches_inside_a_word:
  "findCourseFromUserText lower_ascii
     [(''A'', \<lparr> aliases = None, syllabus_url = None \<rparr>),
      (''B'', \<lparr> aliases = None, syllabus_url = None \<rparr>)]
     ''When is the exam?'' = Some ''A''"
  by code_simp

text \<open>
  C4. Detection lowercases the text and walks the index in order. It returns a course name
  exactly when that course is the first entry of the index whose name or some declared alias,
  lowercased and not empty, is a substring of the lowercased text; so of two matching
  courses the earlier one is returned; and it returns none exactly when no entry matches.
\<close>

theorem findCourse_first_match_in_index_order:
  "(findCourseFromUserText lower idx text = Some c \<longleftrightarrow>
      (\<exists>pre m post. idx = pre @ (c, m) # post \<and> course_matches lower text (c, m)
          \<and> (\<forall>x \<in> set pre. \<not> course_matches lower text x)))
   \<and> (idx = pre @ (c1, m1) # mid @ (c2, m2) # post
        \<and> (\<forall>x \<in> set pre. \<not> course_matches lower text x)
        \<and> course_matches lower text (c1, m1) \<and> course_matches lower text (c2, m2)
      \<longrightarrow> findCourseFromUserText lower idx text = Some c1)
   \<and> (findCourseFromUserText lower idx text = None \<longleftrightarrow>
        (\<forall>x \<in> set idx. \<not> course_matches lower text x))"
proof -
  have hit: "\<And>x. list_ex (\<lambda>a. str_includes (lower text) a) (alias_list lower (fst x) (snd x))
      \<longleftrightarrow> course_matches lower text x"
    by (rule alias_hit_iff)
  have some: "\<And>d. findCourseFromUserText lower idx text = Some d \<longleftrightarrow>
      (\<exists>pre m post. idx = pre @ (d, m) # post \<and> course_matches lower text (d, m)
          \<and> (\<forall>x \<in> set pre. \<not> course_matches lower text x))"
    unfolding findCourseFromUserText_def find_course_loop_Some
    using hit by (metis fst_conv snd_conv)
  have none: "findCourseFromUserText lower idx text = None \<longleftrightarrow>
      (\<forall>x \<in> set idx. \<not> course_matches lower text x)"
    unfolding findCourseFromUserText_def find_course_loop_None using hit by blast
  have tie: "idx = pre @ (c1, m1) # mid @ (c2, m2) # post
        \<and> (\<forall>x \<in> set pre. \<not> course_matches lower text x)
        \<and> course_matches lower text (c1, m1) \<and> course_matches lower text (c2, m2)
      \<longrightarrow> findCourseFromUserText lower idx text = Some c1"
    using some [of c1] by blast
  from some [of c] tie none show ?thesis by blast
qed

theorem findCourse_first_match_witness:
  "course_matches lower_ascii ''Is the INNO exam hard?'' (example_index ! 0)
   \<and> course_matches lower_ascii ''Is the INNO exam hard?'' (example_index ! 1)
   \<and> findCourseFromUserText lower_ascii example_index ''Is the INNO exam hard?''
       = Some ''Innovation Management''"
proof -
  let ?t = "''Is the INNO exam hard?''"
  let ?m1 = "\<lparr> aliases = Some [''INNO'', []], syllabus_url = Some ''https://example.org/inno.txt'' \<rparr>"
  let ?m2 = "\<lparr> aliases = Some [''strat'', ''inno''], syllabus_url = None \<rparr>"
  have idx: "example_index = [] @ (''Innovation Management'', ?m1) # [] @ (''Strategy'', ?m2) # []"
    by (simp add: example_index_def)
  have h1: "list_ex (\<lambda>a. str_includes (lower_ascii ?t) a)
              (alias_list lower_ascii (fst (''Innovation Management'', ?m1)) (snd (''Innovation Management'', ?m1)))"
    by code_simp
  have h2: "list_ex (\<lambda>a. str_includes (lower_ascii ?t) a)
              (alias_list lower_ascii (fst (''Strategy'', ?m2)) (snd (''Strategy'', ?m2)))"
    by code_simp
  have c1: "course_matches lower_ascii ?t (''Innovation Management'', ?m1)"
    using h1 by (simp only: alias_hit_iff)
  have c2: "course_matches lower_ascii ?t (''Strategy'', ?m2)"
    using h2 by (simp only: alias_hit_iff)
  have none: "\<forall>x \<in> set []. \<not> course_matches lower_ascii ?t x" by simp
  have "findCourseFromUserText lower_ascii example_index ?t = Some ''Innovation Management''"
    using findCourse_first_match_in_index_order
            [of lower_ascii example_index ?t "''Innovation Management''" "[]"
                "''Innovation Management''" ?m1 "[]" "''Strategy''" ?m2 "[]"]
          idx none c1 c2
    by blast
  moreover have "example_index ! 0 = (''Innovation Management'', ?m1)"
    by (simp add: example_index_def)
  moreover have "example_index ! 1 = (''Strategy'', ?m2)"
    by (simp add: example_index_def)
  ultimately show ?thesis using c1 c2 by simp
qed

section \<open>The cache\<close>

lemma fetchText_log: "fetch_log (snd (fetchText e url st)) = fetch_log st @ [url]"
  by (simp add: fetchText_def Let_def split: http_response.splits)

lemma fetchText_cache:
  "byUrl (snd (fetchText e url st)) = byUrl st \<and>
   index_entry (snd (fetchText e url st)) = index_entry st"
  by (simp add: fetchText_def Let_def split: http_response.splits)

lemma fetchText_ok:
  "fetch e (length (fetch_log st)) url = Response code text \<Longrightarrow> ok code \<Longrightarrow>
   fetchText e url st = (Inr text, st \<lparr> fetch_log := fetch_log st @ [url] \<rparr>)"
  by (simp add: fetchText_def Let_def)

lemma fetchText_not_ok:
  "fetch e (length (fetch_log st)) url = Response code text \<Longrightarrow> \<not> ok code \<Longrightarrow>
   fst (fetchText e url st) = Inl (Error (''Failed to fetch '' @ url @ '': '' @ show_nat code))"
  by (simp add: fetchText_def Let_def)

lemma fetchText_rejected:
  "fetch e (length (fetch_log st)) url = Rejected m \<Longrightarrow>
   fst (fetchText e url st) = Inl (TypeError m)"
  by (simp add: fetchText_def Let_def)

lemma age_ge_not_lt: "age_ge a t \<Longrightarrow> \<not> age_lt a t"
  by (cases t) auto

lemma syllabus_hit:
  "byUrl st url = Some c \<Longrightarrow> age_lt (now - fetchedAt c) (SYLLABI_CACHE_TTL_MS e) \<Longrightarrow>
   getSyllabusText e now url st = (Inr (cached_value c), st)"
  by (simp add: getSyllabusText_def)

lemma syllabus_miss:
  "\<not> (\<exists>c. byUrl st url = Some c \<and> age_lt (now - fetchedAt c) (SYLLABI_CACHE_TTL_MS e)) \<Longrightarrow>
   getSyllabusText e now url st = refresh_syllabus e now url st"
  by (auto simp add: getSyllabusText_def split: option.splits)

lemma refresh_syllabus_log:
  "fetch_log (snd (refresh_syllabus e now url st)) = fetch_log st @ [url]"
  using fetchText_log [of e url st]
  by (auto simp add: refresh_syllabus_def split: prod.splits sum.splits)

lemma refresh_syllabus_ok:
  "fetch e (length (fetch_log st)) url = Response code text \<Longrightarrow> ok code \<Longrightarrow>
   fst (refresh_syllabus e now url st) = Inr text \<and>
   byUrl (snd (refresh_syllabus e now url st)) url
     = Some \<lparr> cached_value = text, fetchedAt = now \<rparr>"
  by (simp add: refresh_syllabus_def fetchText_ok)

lemma refresh_syllabus_fail:
  "fst (fetchText e url st) = Inl err \<Longrightarrow>
   refresh_syllabus e now url st = (Inl err, snd (fetchText e url st))"
  by (cases "fetchText e url st") (simp add: refresh_syllabus_def)

lemma index_hit:
  "SYLLABI_INDEX_URL e = Some u \<Longrightarrow> u \<noteq> [] \<Longrightarrow> cached_value (index_entry st) = Some v \<Longrightarrow>
   age_lt (now - fetchedAt (index_entry st)) (SYLLABI_CACHE_TTL_MS e) \<Longrightarrow>
   getSyllabiIndex e now st = (Inr v, st)"
  by (simp add: getSyllabiIndex_def)

lemma index_miss:
  "SYLLABI_INDEX_URL e = Some u \<Longrightarrow> u \<noteq> [] \<Longrightarrow>
   \<not> (\<exists>v. cached_value (index_entry st) = Some v
          \<and> age_lt (now - fetchedAt (index_entry st)) (SYLLABI_CACHE_TTL_MS e)) \<Longrightarrow>
   getSyllabiIndex e now st = refresh_index e now u st"
  by (auto simp add: getSyllabiIndex_def split: option.splits)

lemma refresh_index_log:
  "fetch_log (snd (refresh_index e now url st)) = fetch_log st @ [url]"
  using fetchText_log [of e url st]
  by (auto simp add: refresh_index_def split: prod.splits sum.splits)

lemma refresh_index_ok:
  "fetch e (length (fetch_log st)) url = Response code raw \<Longrightarrow> ok code \<Longrightarrow>
   JSON_parse e raw = Inr parsed \<Longrightarrow>
   fst (refresh_index e now url st) = Inr parsed \<and>
   index_entry (snd (refresh_index e now url st))
     = \<lparr> cached_value = Some parsed, fetchedAt = now \<rparr>"
  by (simp add: refresh_index_def fetchText_ok)

lemma refresh_index_fetch_fail:
  "fst (fetchText e url st) = Inl err \<Longrightarrow>
   refresh_index e now url st = (Inl err, snd (fetchText e url st))"
  by (cases "fetchText e url st") (simp add: refresh_index_def)

lemma refresh_index_parse_fail:
  "fetch e (length (fetch_log st)) url = Response code raw \<Longrightarrow> ok code \<Longrightarrow>
   JSON_parse e raw = Inl err \<Longrightarrow>
   refresh_index e now url st = (Inl err, st \<lparr> fetch_log := fetch_log st @ [url] \<rparr>)"
  by (simp add: refresh_index_def fetchText_ok)

text \<open>Whatever the reason, a read that throws has not touched the cache.\<close>

lemma getSyllabusText_error_cache:
  "fst (getSyllabusText e now url st) = Inl err \<Longrightarrow>
   byUrl (snd (getSyllabusText e now url st)) = byUrl st \<and>
   index_entry (snd (getSyllabusText e now url st)) = index_entry st"
  using fetchText_cache [of e url st]
  by (auto simp add: getSyllabusText_def refresh_syllabus_def
           split: option.splits if_splits prod.splits sum.splits)

lemma getSyllabiIndex_error_cache:
  "fst (getSyllabiIndex e now st) = Inl err \<Longrightarrow>
   byUrl (snd (getSyllabiIndex e now st)) = byUrl st \<and>
   index_entry (snd (getSyllabiIndex e now st)) = index_entry st"
proof (cases "SYLLABI_INDEX_URL e")
  case None
  then show ?thesis by (simp add: getSyllabiIndex_def)
next
  case (Some u)
  assume err: "fst (getSyllabiIndex e now st) = Inl err"
  from fetchText_cache [of e u st] err Some show ?thesis
    by (auto simp add: getSyllabiIndex_def refresh_index_def
             split: option.splits if_splits prod.splits sum.splits)
qed

text \<open>
  C3. For a key holding a stored value (a syllabus URL with an entry in \<open>byUrl\<close>, or the
  configured index URL with a parsed index in \<open>index\<close>): a read at age below the TTL
  returns the stored value and leaves the state, the fetch log included, as it was; a read at
  age at least the TTL fetches that URL exactly once, and the result of the fetch (the body
  of a success response, parsed for the index) is stored with \<open>fetchedAt\<close> the time of the
  read and returned.
\<close>

theorem cache_read_fresh_or_refetched:
  "(byUrl st url = Some c \<and> age_lt (t1 - fetchedAt c) (SYLLABI_CACHE_TTL_MS e)
      \<longrightarrow> getSyllabusText e t1 url st = (Inr (cached_value c), st))
   \<and> (byUrl st url = Some c \<and> age_ge (t2 - fetchedAt c) (SYLLABI_CACHE_TTL_MS e)
      \<longrightarrow> fetch_log (snd (getSyllabusText e t2 url st)) = fetch_log st @ [url]
          \<and> (fetch e (length (fetch_log st)) url = Response code text \<and> ok code
              \<longrightarrow> fst (getSyllabusText e t2 url st) = Inr text
                  \<and> byUrl (snd (getSyllabusText e t2 url st)) url
                      = Some \<lparr> cached_value = text, fetchedAt = t2 \<rparr>))
   \<and> (SYLLABI_INDEX_URL e = Some u \<and> u \<noteq> [] \<and> cached_value (index_entry st) = Some v
        \<and> age_lt (t1 - fetchedAt (index_entry st)) (SYLLABI_CACHE_TTL_MS e)
      \<longrightarrow> getSyllabiIndex e t1 st = (Inr v, st))
   \<and> (SYLLABI_INDEX_URL e = Some u \<and> u \<noteq> [] \<and> cached_value (index_entry st) = Some v
        \<and> age_ge (t2 - fetchedAt (index_entry st)) (SYLLABI_CACHE_TTL_MS e)
      \<longrightarrow> fetch_log (snd (getSyllabiIndex e t2 st)) = fetch_log st @ [u]
          \<and> (fetch e (length (fetch_log st)) u = Response code' raw \<and> ok code'
                \<and> JSON_parse e raw = Inr parsed
              \<longrightarrow> fst (getSyllabiIndex e t2 st) = Inr parsed
                  \<and> index_entry (snd (getSyllabiIndex e t2 st))
                      = \<lparr> cached_value = Some parsed, fetchedAt = t2 \<rparr>))"
proof (intro conjI impI)
  assume "byUrl st url = Some c \<and> age_lt (t1 - fetchedAt c) (SYLLABI_CACHE_TTL_MS e)"
  then show "getSyllabusText e t1 url st = (Inr (cached_value c), st)"
    by (simp add: syllabus_hit)
next
  assume h: "byUrl st url = Some c \<and> age_ge (t2 - fetchedAt c) (SYLLABI_CACHE_TTL_MS e)"
  then have "\<not> age_lt (t2 - fetchedAt c) (SYLLABI_CACHE_TTL_MS e)"
    by (simp add: age_ge_not_lt)
  with h have r: "getSyllabusText e t2 url st = refresh_syllabus e t2 url st"
    by (simp add: syllabus_miss)
  show "fetch_log (snd (getSyllabusText e t2 url st)) = fetch_log st @ [url]"
    by (simp add: r refresh_syllabus_log)
  assume "fetch e (length (fetch_log st)) url = Response code text \<and> ok code"
  then have ok: "fst (refresh_syllabus e t2 url st) = Inr text \<and>
      byUrl (snd (refresh_syllabus e t2 url st)) url
        = Some \<lparr> cached_value = text, fetchedAt = t2 \<rparr>"
    by (simp add: refresh_syllabus_ok)
  show "fst (getSyllabusText e t2 url st) = Inr text" using ok by (simp add: r)
  show "byUrl (snd (getSyllabusText e t2 url st)) url
          = Some \<lparr> cached_value = text, fetchedAt = t2 \<rparr>"
    using ok by (simp add: r)
next
  assume "SYLLABI_INDEX_URL e = Some u \<and> u \<noteq> [] \<and> cached_value (index_entry st) = Some v
        \<and> age_lt (t1 - fetchedAt (index_entry st)) (SYLLABI_CACHE_TTL_MS e)"
  then show "getSyllabiIndex e t1 st = (Inr v, st)"
    by (simp add: index_hit)
next
  assume h: "SYLLABI_INDEX_URL e = Some u \<and> u \<noteq> [] \<and> cached_value (index_entry st) = Some v
        \<and> age_ge (t2 - fetchedAt (index_entry st)) (SYLLABI_CACHE_TTL_MS e)"
  then have "\<not> age_lt (t2 - fetchedAt (index_entry st)) (SYLLABI_CACHE_TTL_MS e)"
    by (simp add: age_ge_not_lt)
  with h have r: "getSyllabiIndex e t2 st = refresh_index e t2 u st"
    by (simp add: index_miss)
  show "fetch_log (snd (getSyllabiIndex e t2 st)) = fetch_log st @ [u]"
    by (simp add: r refresh_index_log)
  assume "fetch e (length (fetch_log st)) u = Response code' raw \<and> ok code'
                \<and> JSON_parse e raw = Inr parsed"
  then have ok: "fst (refresh_index e t2 u st) = Inr parsed \<and>
      index_entry (snd (refresh_index e t2 u st))
        = \<lparr> cached_value = Some parsed, fetchedAt = t2 \<rparr>"
    by (simp add: refresh_index_ok)
  show "fst (getSyllabiIndex e t2 st) = Inr parsed" using ok by (simp add: r)
  show "index_entry (snd (getSyllabiIndex e t2 st))
          = \<lparr> cached_value = Some parsed, fetchedAt = t2 \<rparr>"
    using ok by (simp add: r)
qed

theorem cache_read_witness:
  "getSyllabusText example_env 999999 ''https://example.org/inno.txt'' cached_state
     = (Inr ''Exam: 1 June'', cached_state)
   \<and> fetch_log (snd (getSyllabusText example_env 1000000 ''https://example.org/inno.txt'' cached_state))
       = [''https://example.org/inno.txt'']
   \<and> fst (getSyllabusText example_env 1000000 ''https://example.org/inno.txt'' cached_state)
       = Inr ''Exam: 30 June''
   \<and> byUrl (snd (getSyllabusText example_env 1000000 ''https://example.org/inno.txt'' cached_state))
         ''https://example.org/inno.txt''
       = Some \<lparr> cached_value = ''Exam: 30 June'', fetchedAt = 1000000 \<rparr>
   \<and> getSyllabiIndex example_env 999999 cached_state = (Inr example_index, cached_state)
   \<and> fetch_log (snd (getSyllabiIndex example_env 1000000 cached_state))
       = [''https://example.org/index.json'']
   \<and> fst (getSyllabiIndex example_env 1000000 cached_state) = Inr example_index
   \<and> index_entry (snd (getSyllabiIndex example_env 1000000 cached_state))
       = \<lparr> cached_value = Some example_index, fetchedAt = 1000000 \<rparr>"
proof -
  let ?url = "''https://example.org/inno.txt''"
  let ?c = "\<lparr> cached_value = ''Exam: 1 June'', fetchedAt = 100000 \<rparr>"
  have stored: "byUrl cached_state ?url = Some ?c"
    by (simp add: cached_state_def)
  have ttl: "SYLLABI_CACHE_TTL_MS example_env = Finite 900000"
    by (simp add: example_env_def)
  have fresh: "age_lt (999999 - fetchedAt ?c) (SYLLABI_CACHE_TTL_MS example_env)"
    by (simp add: ttl)
  have stale: "age_ge (1000000 - fetchedAt ?c) (SYLLABI_CACHE_TTL_MS example_env)"
    by (simp add: ttl)
  have log: "fetch_log cached_state = []"
    by (simp add: cached_state_def)
  have served: "fetch example_env (length (fetch_log cached_state)) ?url
                  = Response 200 ''Exam: 30 June'' \<and> ok 200"
    by (simp add: example_env_def ok_def)
  have conf: "SYLLABI_INDEX_URL example_env = Some ''https://example.org/index.json''
                \<and> ''https://example.org/index.json'' \<noteq> []"
    by (simp add: example_env_def)
  have istored: "cached_value (index_entry cached_state) = Some example_index"
    by (simp add: cached_state_def)
  have ifresh: "age_lt (999999 - fetchedAt (index_entry cached_state))
                  (SYLLABI_CACHE_TTL_MS example_env)"
    by (simp add: ttl cached_state_def)
  have istale: "age_ge (1000000 - fetchedAt (index_entry cached_state))
                  (SYLLABI_CACHE_TTL_MS example_env)"
    by (simp add: ttl cached_state_def)
  have iserved: "fetch example_env (length (fetch_log cached_state)) ''https://example.org/index.json''
                   = Response 200 ''INDEX'' \<and> ok 200
                 \<and> JSON_parse example_env ''INDEX'' = Inr example_index"
    by (simp add: example_env_def ok_def)
  from cache_read_fresh_or_refetched
         [of cached_state ?url ?c 999999 example_env 1000000 200 "''Exam: 30 June''"
             "''https://example.org/index.json''" example_index 200 "''INDEX''" example_index]
       stored fresh stale served conf istored ifresh istale iserved log
  show ?thesis by simp
qed

text \<open>
  C5. When the fetch behind a cache read fails (the request is rejected, the status is not a
  success, or for the index the body does not parse), the read returns that error and both
  parts of the cache are exactly as before: nothing of the failed fetch is stored. More
  generally, no read that throws changes the cache.
\<close>

theorem failed_fetch_propagates_and_keeps_cache:
  "(fetch e (length (fetch_log st)) url = Response code body \<and> \<not> ok code
      \<longrightarrow> fst (fetchText e url st)
            = Inl (Error (''Failed to fetch '' @ url @ '': '' @ show_nat code)))
   \<and> (fetch e (length (fetch_log st)) url = Rejected m
      \<longrightarrow> fst (fetchText e url st) = Inl (TypeError m))
   \<and> (\<not> (\<exists>c. byUrl st url = Some c \<and> age_lt (now - fetchedAt c) (SYLLABI_CACHE_TTL_MS e))
        \<and> fst (fetchText e url st) = Inl err
      \<longrightarrow> fst (getSyllabusText e now url st) = Inl err
          \<and> byUrl (snd (getSyllabusText e now url st)) = byUrl st
          \<and> index_entry (snd (getSyllabusText e now url st)) = index_entry st)
   \<and> (SYLLABI_INDEX_URL e = Some u \<and> u \<noteq> []
        \<and> \<not> (\<exists>v. cached_value (index_entry st) = Some v
                \<and> age_lt (now - fetchedAt (index_entry st)) (SYLLABI_CACHE_TTL_MS e))
        \<and> (fst (fetchText e u st) = Inl err'
            \<or> (\<exists>code' raw. fetch e (length (fetch_log st)) u = Response code' raw \<and> ok code'
                  \<and> JSON_parse e raw = Inl err'))
      \<longrightarrow> fst (getSyllabiIndex e now st) = Inl err'
          \<and> byUrl (snd (getSyllabiIndex e now st)) = byUrl st
          \<and> index_entry (snd (getSyllabiIndex e now st)) = index_entry st)
   \<and> (fst (getSyllabusText e now url st) = Inl err
      \<longrightarrow> byUrl (snd (getSyllabusText e now url st)) = byUrl st
          \<and> index_entry (snd (getSyllabusText e now url st)) = index_entry st)
   \<and> (fst (getSyllabiIndex e now st) = Inl err'
      \<longrightarrow> byUrl (snd (getSyllabiIndex e now st)) = byUrl st
          \<and> index_entry (snd (getSyllabiIndex e now st)) = index_entry st)"
proof -
  have a: "fetch e (length (fetch_log st)) url = Response code body \<and> \<not> ok code
      \<longrightarrow> fst (fetchText e url st)
            = Inl (Error (''Failed to fetch '' @ url @ '': '' @ show_nat code))"
    by (simp add: fetchText_not_ok)
  have b: "fetch e (length (fetch_log st)) url = Rejected m
      \<longrightarrow> fst (fetchText e url st) = Inl (TypeError m)"
    by (simp add: fetchText_rejected)
  have c: "\<not> (\<exists>c. byUrl st url = Some c \<and> age_lt (now - fetchedAt c) (SYLLABI_CACHE_TTL_MS e))
        \<and> fst (fetchText e url st) = Inl err
      \<longrightarrow> fst (getSyllabusText e now url st) = Inl err
          \<and> byUrl (snd (getSyllabusText e now url st)) = byUrl st
          \<and> index_entry (snd (getSyllabusText e now url st)) = index_entry st"
  proof (intro impI)
    assume h: "\<not> (\<exists>c. byUrl st url = Some c \<and> age_lt (now - fetchedAt c) (SYLLABI_CACHE_TTL_MS e))
        \<and> fst (fetchText e url st) = Inl err"
    then have "getSyllabusText e now url st = (Inl err, snd (fetchText e url st))"
      by (simp add: syllabus_miss refresh_syllabus_fail)
    then have "fst (getSyllabusText e now url st) = Inl err" by simp
    then show "fst (getSyllabusText e now url st) = Inl err
          \<and> byUrl (snd (getSyllabusText e now url st)) = byUrl st
          \<and> index_entry (snd (getSyllabusText e now url st)) = index_entry st"
      using getSyllabusText_error_cache by blast
  qed
  have d: "SYLLABI_INDEX_URL e = Some u \<and> u \<noteq> []
        \<and> \<not> (\<exists>v. cached_value (index_entry st) = Some v
                \<and> age_lt (now - fetchedAt (index_entry st)) (SYLLABI_CACHE_TTL_MS e))
        \<and> (fst (fetchText e u st) = Inl err'
            \<or> (\<exists>code' raw. fetch e (length (fetch_log st)) u = Response code' raw \<and> ok code'
                  \<and> JSON_parse e raw = Inl err'))
      \<longrightarrow> fst (getSyllabiIndex e now st) = Inl err'
          \<and> byUrl (snd (getSyllabiIndex e now st)) = byUrl st
          \<and> index_entry (snd (getSyllabiIndex e now st)) = index_entry st"
  proof (intro impI)
    assume h: "SYLLABI_INDEX_URL e = Some u \<and> u \<noteq> []
        \<and> \<not> (\<exists>v. cached_value (index_entry st) = Some v
                \<and> age_lt (now - fetchedAt (index_entry st)) (SYLLABI_CACHE_TTL_MS e))
        \<and> (fst (fetchText e u st) = Inl err'
            \<or> (\<exists>code' raw. fetch e (length (fetch_log st)) u = Response code' raw \<and> ok code'
                  \<and> JSON_parse e raw = Inl err'))"
    then have r: "getSyllabiIndex e now st = refresh_index e now u st"
      by (simp add: index_miss)
    from h consider "fst (fetchText e u st) = Inl err'"
      | code' raw where "fetch e (length (fetch_log st)) u = Response code' raw" "ok code'"
          "JSON_parse e raw = Inl err'"
      by blast
    then have "fst (refresh_index e now u st) = Inl err'"
    proof cases
      case 1
      then show ?thesis by (simp add: refresh_index_fetch_fail)
    next
      case 2
      then show ?thesis by (simp add: refresh_index_parse_fail)
    qed
    then have "fst (getSyllabiIndex e now st) = Inl err'" by (simp add: r)
    then show "fst (getSyllabiIndex e now st) = Inl err'
          \<and> byUrl (snd (getSyllabiIndex e now st)) = byUrl st
          \<and> index_entry (snd (getSyllabiIndex e now st)) = index_entry st"
      using getSyllabiIndex_error_cache by blast
  qed
  have f: "fst (getSyllabusText e now url st) = Inl err
      \<longrightarrow> byUrl (snd (getSyllabusText e now url st)) = byUrl st
          \<and> index_entry (snd (getSyllabusText e now url st)) = index_entry st"
    using getSyllabusText_error_cache by blast
  have g: "fst (getSyllabiIndex e now st) = Inl err'
      \<longrightarrow> byUrl (snd (getSyllabiIndex e now st)) = byUrl st
          \<and> index_entry (snd (getSyllabiIndex e now st)) = index_entry st"
    using getSyllabiIndex_error_cache by blast
  from a b c d f g show ?thesis by blast
qed

theorem failed_fetch_witness:
  "fst (getSyllabusText unreachable_env 1000000 ''https://example.org/inno.txt'' cached_state)
     = Inl (Error ''Failed to fetch https://example.org/inno.txt: 503'')
   \<and> byUrl (snd (getSyllabusText unreachable_env 1000000 ''https://example.org/inno.txt'' cached_state))
       = byUrl cached_state
   \<and> fst (getSyllabiIndex unreachable_env 1000000 cached_state)
       = Inl (Error ''Failed to fetch https://example.org/index.json: 503'')
   \<and> index_entry (snd (getSyllabiIndex unreachable_env 1000000 cached_state))
       = index_entry cached_state
   \<and> fst (getSyllabiIndex garbled_env 1000000 cached_state)
       = Inl (SyntaxError ''Unexpected token'')
   \<and> index_entry (snd (getSyllabiIndex garbled_env 1000000 cached_state))
       = index_entry cached_state"
proof -
  let ?url = "''https://example.org/inno.txt''"
  let ?idx = "''https://example.org/index.json''"
  let ?e1 = "Error (''Failed to fetch '' @ ?url @ '': '' @ show_nat 503)"
  let ?e2 = "Error (''Failed to fetch '' @ ?idx @ '': '' @ show_nat 503)"
  have n: "show_nat 503 = ''503''" by code_simp
  have ttl: "SYLLABI_CACHE_TTL_MS unreachable_env = Finite 900000"
            "SYLLABI_CACHE_TTL_MS garbled_env = Finite 900000"
    by (simp_all add: unreachable_env_def garbled_env_def example_env_def)
  have down: "fetch unreachable_env (length (fetch_log cached_state)) ?url
                = Response 503 ''Service Unavailable'' \<and> \<not> ok 503"
             "fetch unreachable_env (length (fetch_log cached_state)) ?idx
                = Response 503 ''Service Unavailable'' \<and> \<not> ok 503"
    by (simp_all add: unreachable_env_def ok_def)
  have stale: "\<not> (\<exists>c. byUrl cached_state ?url = Some c
                   \<and> age_lt (1000000 - fetchedAt c) (SYLLABI_CACHE_TTL_MS unreachable_env))"
    by (simp add: ttl cached_state_def)
  have conf: "SYLLABI_INDEX_URL unreachable_env = Some ?idx \<and> ?idx \<noteq> []"
             "SYLLABI_INDEX_URL garbled_env = Some ?idx \<and> ?idx \<noteq> []"
    by (simp_all add: unreachable_env_def garbled_env_def example_env_def)
  have istale: "\<not> (\<exists>v. cached_value (index_entry cached_state) = Some v
                   \<and> age_lt (1000000 - fetchedAt (index_entry cached_state))
                        (SYLLABI_CACHE_TTL_MS unreachable_env))"
               "\<not> (\<exists>v. cached_value (index_entry cached_state) = Some v
                   \<and> age_lt (1000000 - fetchedAt (index_entry cached_state))
                        (SYLLABI_CACHE_TTL_MS garbled_env))"
    by (simp_all add: ttl cached_state_def)
  have garbled: "\<exists>code' raw. fetch garbled_env (length (fetch_log cached_state)) ?idx
                    = Response code' raw \<and> ok code'
                  \<and> JSON_parse garbled_env raw = Inl (SyntaxError ''Unexpected token'')"
    by (simp add: garbled_env_def example_env_def ok_def)
  note A = failed_fetch_propagates_and_keeps_cache
             [of unreachable_env cached_state ?url 503 "''Service Unavailable''" _ 1000000 ?e1 ?idx ?e2]
  note B = failed_fetch_propagates_and_keeps_cache
             [of unreachable_env cached_state ?idx 503 "''Service Unavailable''" _ 1000000 ?e2 ?idx ?e2]
  note C = failed_fetch_propagates_and_keeps_cache
             [of garbled_env cached_state ?idx 200 "''<html>''" _ 1000000 _ ?idx
                 "SyntaxError ''Unexpected token''"]
  have f1: "fst (fetchText unreachable_env ?url cached_state) = Inl ?e1"
    using A down(1) by blast
  have f2: "fst (fetchText unreachable_env ?idx cached_state) = Inl ?e2"
    using B down(2) by blast
  have s: "fst (getSyllabusText unreachable_env 1000000 ?url cached_state) = Inl ?e1
          \<and> byUrl (snd (getSyllabusText unreachable_env 1000000 ?url cached_state)) = byUrl cached_state"
    using A stale f1 by blast
  have i: "fst (getSyllabiIndex unreachable_env 1000000 cached_state) = Inl ?e2
          \<and> index_entry (snd (getSyllabiIndex unreachable_env 1000000 cached_state))
              = index_entry cached_state"
    using A conf(1) istale(1) f2 by blast
  have p: "fst (getSyllabiIndex garbled_env 1000000 cached_state) = Inl (SyntaxError ''Unexpected token'')
          \<and> index_entry (snd (getSyllabiIndex garbled_env 1000000 cached_state))
              = index_entry cached_state"
    using C conf(2) istale(2) garbled by blast
  from s i p show ?thesis by (simp add: n)
qed

section \<open>The debug endpoint\<close>

text \<open>
  C8, as the code has it. \<open>GET /debug/syllabi-index\<close> answers 200 with the course names
  when the index loads, and 500 with the error text when loading throws, which it does in
  particular when no index URL is configured.
\<close>

theorem debug_index_200_or_500:
  "(fst (getSyllabiIndex e (now_index e) st) = Inr idx
      \<longrightarrow> fst (debug_syllabi_index e st) = HttpReply 200 (SyllabiOk (map fst idx)))
   \<and> (fst (getSyllabiIndex e (now_index e) st) = Inl err
      \<longrightarrow> fst (debug_syllabi_index e st) = HttpReply 500 (SyllabiFail (error_text err)))
   \<and> (SYLLABI_INDEX_URL e = None \<or> SYLLABI_INDEX_URL e = Some []
      \<longrightarrow> fst (debug_syllabi_index e st)
            = HttpReply 500 (SyllabiFail ''Missing SYLLABI_INDEX_URL env var''))"
proof (intro conjI impI)
  assume "fst (getSyllabiIndex e (now_index e) st) = Inr idx"
  then show "fst (debug_syllabi_index e st) = HttpReply 200 (SyllabiOk (map fst idx))"
    by (cases "getSyllabiIndex e (now_index e) st") (simp add: debug_syllabi_index_def)
next
  assume "fst (getSyllabiIndex e (now_index e) st) = Inl err"
  then show "fst (debug_syllabi_index e st) = HttpReply 500 (SyllabiFail (error_text err))"
    by (cases "getSyllabiIndex e (now_index e) st") (simp add: debug_syllabi_index_def)
next
  assume "SYLLABI_INDEX_URL e = None \<or> SYLLABI_INDEX_URL e = Some []"
  then show "fst (debug_syllabi_index e st)
               = HttpReply 500 (SyllabiFail ''Missing SYLLABI_INDEX_URL env var'')"
    by (auto simp add: debug_syllabi_index_def getSyllabiIndex_def error_text_def)
qed

theorem debug_index_witness:
  "fst (debug_syllabi_index example_env initial_state)
     = HttpReply 200 (SyllabiOk [''Innovation Management'', ''Strategy''])
   \<and> fst (debug_syllabi_index unreachable_env initial_state)
       = HttpReply 500 (SyllabiFail ''Failed to fetch https://example.org/index.json: 503'')
   \<and> fst (debug_syllabi_index unconfigured_env initial_state)
       = HttpReply 500 (SyllabiFail ''Missing SYLLABI_INDEX_URL env var'')"
proof -
  have a: "fst (getSyllabiIndex example_env (now_index example_env) initial_state)
             = Inr example_index"
    by code_simp
  have b: "fst (getSyllabiIndex unreachable_env (now_index unreachable_env) initial_state)
             = Inl (Error ''Failed to fetch https://example.org/index.json: 503'')"
    by code_simp
  have c: "SYLLABI_INDEX_URL unconfigured_env = None"
    by (simp add: unconfigured_env_def)
  have names: "map fst example_index = [''Innovation Management'', ''Strategy'']"
    by (simp add: example_index_def)
  have msg: "error_text (Error ''Failed to fetch https://example.org/index.json: 503'')
                = ''Failed to fetch https://example.org/index.json: 503''"
    by (simp add: error_text_def)
  from debug_index_200_or_500 [of example_env initial_state example_index] a names
  have 1: "fst (debug_syllabi_index example_env initial_state)
             = HttpReply 200 (SyllabiOk [''Innovation Management'', ''Strategy''])"
    by simp
  from debug_index_200_or_500 [of unreachable_env initial_state _
         "Error ''Failed to fetch https://example.org/index.json: 503''"] b msg
  have 2: "fst (debug_syllabi_index unreachable_env initial_state)
             = HttpReply 500 (SyllabiFail ''Failed to fetch https://example.org/index.json: 503'')"
    by simp
  from debug_index_200_or_500 [of unconfigured_env initial_state] c
  have 3: "fst (debug_syllabi_index unconfigured_env initial_state)
             = HttpReply 500 (SyllabiFail ''Missing SYLLABI_INDEX_URL env var'')"
    by simp
  from 1 2 3 show ?thesis by simp
qed

text \<open>C8 as stated fails: without a configured index URL the status is 500, not 200.\<close>

theorem debug_index_unconfigured_not_200:
  "fst (debug_syllabi_index unconfigured_env initial_state)
     = HttpReply 500 (SyllabiFail ''Missing SYLLABI_INDEX_URL env var'')
   \<and> status (fst (debug_syllabi_index unconfigured_env initial_state)) \<noteq> 200"
  by (simp add: debug_syllabi_index_def getSyllabiIndex_def unconfigured_env_def error_text_def)

section \<open>The chat handler\<close>

subsection \<open>The model call\<close>

lemma call_model_llm_call: "llm_call (call_model e st out) = Some out"
  by (simp add: call_model_def split: sum.splits)

lemma call_model_final_state: "final_state (call_model e st out) = st"
  by (simp add: call_model_def split: sum.splits)

lemma call_model_response:
  "response (call_model e st out) =
     (case callLLM e out of
        Inr reply \<Rightarrow> HttpReply 200 (Reply reply)
      | Inl err \<Rightarrow> HttpReply 500 (ErrorBody ''Server error''))"
  by (simp add: call_model_def split: sum.splits)

text \<open>With another provider selected, every call of the model client throws.\<close>

lemma callLLM_unsupported_provider:
  "PROVIDER e \<noteq> ''openai'' \<Longrightarrow>
   callLLM e out = Inl (Error (''Unsupported PROVIDER='' @ PROVIDER e @ ''. Set PROVIDER=openai.''))"
  by (simp add: callLLM_def)

subsection \<open>The handler body\<close>

lemma chat_body_index_error:
  "getSyllabiIndex e (now_index e) st = (Inl err, st1) \<Longrightarrow>
   chat_body e st messages = call_model e st1 (outbound_of e messages None)"
  by (simp add: chat_body_def)

text \<open>The short-circuit: no detected course, the keyword test true and more than one course
  give the clarification reply and no model call, whatever the provider is.\<close>

lemma chat_body_ambiguous:
  "getSyllabiIndex e (now_index e) st = (Inr indexObj, st1) \<Longrightarrow>
   ambiguous (findCourseFromUserText (toLowerCase e) indexObj (lastUserText messages))
     (lastUserText messages) indexObj \<Longrightarrow>
   chat_body e st messages =
     \<lparr> response = HttpReply 200 (Reply (clarification (map fst indexObj))),
       llm_call = None, final_state = st1 \<rparr>"
  by (simp add: chat_body_def Let_def)

lemma chat_body_clarifies:
  assumes "getSyllabiIndex e (now_index e) st = (Inr indexObj, st1)"
    and "\<forall>x \<in> set indexObj. \<not> course_matches (toLowerCase e) (lastUserText messages) x"
    and "needsCourse (lastUserText messages)"
    and "length indexObj > 1"
  shows "response (chat_body e st messages)
           = HttpReply 200 (Reply (clarification (map fst indexObj)))
         \<and> llm_call (chat_body e st messages) = None"
proof -
  have "find_course_loop (toLowerCase e) (toLowerCase e (lastUserText messages)) indexObj = None"
    using assms(2) by (simp add: find_course_loop_None alias_hit_iff)
  then have "findCourseFromUserText (toLowerCase e) indexObj (lastUserText messages) = None"
    by (simp add: findCourseFromUserText_def)
  then have "ambiguous (findCourseFromUserText (toLowerCase e) indexObj (lastUserText messages))
     (lastUserText messages) indexObj"
    using assms(3,4) by (simp add: ambiguous_def)
  with assms(1) show ?thesis by (simp add: chat_body_ambiguous)
qed

text \<open>In particular the short-circuit does not depend on the provider: with a provider
  other than \<open>openai\<close> every model call would throw, and the ambiguous request is still
  answered with the clarification.\<close>

lemma chat_body_ambiguous_any_provider:
  assumes "PROVIDER e \<noteq> ''openai''"
    and "getSyllabiIndex e (now_index e) st = (Inr indexObj, st1)"
    and "ambiguous (findCourseFromUserText (toLowerCase e) indexObj (lastUserText messages))
           (lastUserText messages) indexObj"
  shows "response (chat_body e st messages)
           = HttpReply 200 (Reply (clarification (map fst indexObj)))
         \<and> llm_call (chat_body e st messages) = None
         \<and> (\<forall>out. \<exists>err. callLLM e out = Inl err)"
  using assms by (simp add: chat_body_ambiguous callLLM_def)

lemma chat_body_resolved:
  "getSyllabiIndex e (now_index e) st = (Inr indexObj, st1) \<Longrightarrow>
   \<not> ambiguous (findCourseFromUserText (toLowerCase e) indexObj (lastUserText messages))
     (lastUserText messages) indexObj \<Longrightarrow>
   chat_body e st messages =
     call_model e
       (snd (load_syllabus e indexObj
          (findCourseFromUserText (toLowerCase e) indexObj (lastUserText messages)) st1))
       (outbound_of e messages
          (fst (load_syllabus e indexObj
             (findCourseFromUserText (toLowerCase e) indexObj (lastUserText messages)) st1)))"
  by (simp add: chat_body_def Let_def split: prod.splits)

text \<open>When the syllabus message is built: the detected name is not empty, the index entry
  of that name has a non-empty \<open>syllabus_url\<close>, and \<open>getSyllabusText\<close> returns.\<close>

lemma load_syllabus_Some:
  "fst (load_syllabus e indexObj detected st) = Some s \<longleftrightarrow>
   (\<exists>c m url syllabusText. detected = Some c \<and> c \<noteq> [] \<and> map_of indexObj c = Some m
      \<and> syllabus_url m = Some url \<and> url \<noteq> []
      \<and> fst (getSyllabusText e (now_syllabus e) url st) = Inr syllabusText
      \<and> s = syllabusContextMessage c syllabusText)"
  by (auto simp add: load_syllabus_def split: option.splits if_splits prod.splits sum.splits)

lemma load_syllabus_fetch_error:
  "detected = Some c \<Longrightarrow> c \<noteq> [] \<Longrightarrow> map_of indexObj c = Some m \<Longrightarrow>
   syllabus_url m = Some url \<Longrightarrow> url \<noteq> [] \<Longrightarrow>
   fst (getSyllabusText e (now_syllabus e) url st) = Inl err \<Longrightarrow>
   fst (load_syllabus e indexObj detected st) = None"
  by (cases "getSyllabusText e (now_syllabus e) url st") (simp add: load_syllabus_def)

lemma load_syllabus_None: "load_syllabus e indexObj None st = (None, st)"
  by (simp add: load_syllabus_def)

text \<open>Every sequence handed to the model is the runtime-context message, the persona
  message, at most one syllabus message, and then the conversation as received.\<close>

lemma chat_body_outbound:
  "llm_call (chat_body e st messages) = Some out \<Longrightarrow>
   out = [runtimeContextMessage e (lastUserText messages), systemMessage] @ messages
   \<or> (\<exists>c syllabusText.
        out = [runtimeContextMessage e (lastUserText messages), systemMessage,
               syllabusContextMessage c syllabusText] @ messages)"
proof -
  assume a: "llm_call (chat_body e st messages) = Some out"
  obtain r st1 where g: "getSyllabiIndex e (now_index e) st = (r, st1)"
    by (cases "getSyllabiIndex e (now_index e) st")
  show ?thesis
  proof (cases r)
    case (Inl err)
    with g a show ?thesis
      by (simp add: chat_body_index_error call_model_llm_call outbound_of_def)
  next
    case (Inr indexObj)
    let ?d = "findCourseFromUserText (toLowerCase e) indexObj (lastUserText messages)"
    show ?thesis
    proof (cases "ambiguous ?d (lastUserText messages) indexObj")
      case True
      with g Inr a show ?thesis by (simp add: chat_body_ambiguous)
    next
      case False
      with g Inr a have out: "out = outbound_of e messages (fst (load_syllabus e indexObj ?d st1))"
        by (simp add: chat_body_resolved call_model_llm_call)
      show ?thesis
      proof (cases "fst (load_syllabus e indexObj ?d st1)")
        case None
        with out show ?thesis by (simp add: outbound_of_def)
      next
        case (Some s)
        then obtain c syllabusText where "s = syllabusContextMessage c syllabusText"
          by (auto simp add: load_syllabus_Some)
        with Some out have "out = [runtimeContextMessage e (lastUserText messages), systemMessage,
               syllabusContextMessage c syllabusText] @ messages"
          by (simp add: outbound_of_def)
        then show ?thesis by blast
      qed
    qed
  qed
qed

lemma chat_body_status:
  "status (response (chat_body e st messages)) = 200
   \<or> status (response (chat_body e st messages)) = 500"
  by (cases "getSyllabiIndex e (now_index e) st")
     (auto simp add: chat_body_def Let_def call_model_def
           split: sum.splits if_splits prod.splits)

text \<open>A conversation without a user message: the detection text is empty, nothing is
  detected, the keyword test fails, and the model is called with the two fixed messages in
  front of the conversation.\<close>

lemma lastUserText_no_user:
  "\<forall>m \<in> set messages. role_of m \<noteq> Some ''user'' \<Longrightarrow> lastUserText messages = []"
  by (simp add: lastUserText_def lastUser_def find_None_iff [THEN iffD2])

lemma needsCourse_empty: "\<not> needsCourse []"
  by (simp add: needsCourse_def keyword_list_def)

lemma chat_body_no_user:
  assumes "\<forall>m \<in> set messages. role_of m \<noteq> Some ''user''" and "toLowerCase e [] = []"
  shows "llm_call (chat_body e st messages)
           = Some (runtimeContextMessage e [] # systemMessage # messages)"
proof -
  have t: "lastUserText messages = []" using assms(1) by (rule lastUserText_no_user)
  obtain r st1 where g: "getSyllabiIndex e (now_index e) st = (r, st1)"
    by (cases "getSyllabiIndex e (now_index e) st")
  show ?thesis
  proof (cases r)
    case (Inl err)
    with g t show ?thesis
      by (simp add: chat_body_index_error call_model_llm_call outbound_of_def)
  next
    case (Inr idx)
    have d: "findCourseFromUserText (toLowerCase e) idx [] = None"
      using assms(2) by (rule findCourse_empty_text)
    have "\<not> ambiguous None [] idx" by (simp add: ambiguous_def needsCourse_empty)
    with g Inr t d show ?thesis
      by (simp add: chat_body_def Let_def load_syllabus_None call_model_llm_call outbound_of_def)
  qed
qed

subsection \<open>The handler as registered\<close>

text \<open>The module does not declare \<open>univieSemesterLabel\<close>.\<close>

lemma univieSemesterLabel_unbound:
  "resolve ''univieSemesterLabel'' = Inl (ReferenceError ''univieSemesterLabel is not defined'')"
  by (simp add: resolve_def module_scope_def)

text \<open>Hence every request whose \<open>messages\<close> is an array is answered 500 before the index
  is loaded, the cache touched or the model called.\<close>

lemma api_chat_array:
  "api_chat e st (Array messages) =
     \<lparr> response = HttpReply 500 (ErrorBody ''Server error''), llm_call = None, final_state = st \<rparr>"
  by (simp add: api_chat_def read_messages_def univieSemesterLabel_unbound)

lemma api_chat_not_array:
  "api_chat e st NotAnArray =
     \<lparr> response = HttpReply 400 (ErrorBody ''messages must be an array''),
       llm_call = None, final_state = st \<rparr>"
  by (simp add: api_chat_def read_messages_def)

text \<open>A request without a parsed body does not get as far as the array check.\<close>

lemma api_chat_unparsed:
  "api_chat e st Unparsed =
     \<lparr> response = HttpReply 500 (ErrorBody ''Server error''), llm_call = None, final_state = st \<rparr>"
  by (simp add: api_chat_def read_messages_def)

text \<open>The handler as registered never calls the model.\<close>

lemma api_chat_never_calls_model: "llm_call (api_chat e st body) = None"
  by (cases body) (simp_all add: api_chat_array api_chat_not_array api_chat_unparsed)

text \<open>
  C7, as the code has it. The only validation is \<open>Array.isArray(messages)\<close>: the reply is
  400 \<open>messages must be an array\<close> exactly when the request has a parsed body whose
  \<open>messages\<close> is not an array. A request without a parsed body throws at the destructuring
  and is answered 500 by the outer \<open>catch\<close>. Nothing later in the handler answers 400,
  whatever the entries of the array are.
\<close>

theorem bad_request_iff_parsed_and_not_an_array:
  "(response (api_chat e st body) = HttpReply 400 (ErrorBody ''messages must be an array'')
      \<longleftrightarrow> body = NotAnArray)
   \<and> response (api_chat e st Unparsed) = HttpReply 500 (ErrorBody ''Server error'')
   \<and> status (response (api_chat e st (Array messages))) \<noteq> 400
   \<and> status (response (chat_body e st messages)) \<noteq> 400"
proof (intro conjI)
  show "response (api_chat e st body) = HttpReply 400 (ErrorBody ''messages must be an array'')
      \<longleftrightarrow> body = NotAnArray"
    by (cases body) (simp_all add: api_chat_array api_chat_not_array api_chat_unparsed)
  show "response (api_chat e st Unparsed) = HttpReply 500 (ErrorBody ''Server error'')"
    by (simp add: api_chat_unparsed)
  show "status (response (api_chat e st (Array messages))) \<noteq> 400"
    by (simp add: api_chat_array)
  show "status (response (chat_body e st messages)) \<noteq> 400"
    using chat_body_status [of e st messages] by auto
qed

theorem bad_request_witness:
  "response (api_chat example_env initial_state NotAnArray)
     = HttpReply 400 (ErrorBody ''messages must be an array'')
   \<and> response (api_chat example_env initial_state Unparsed)
       = HttpReply 500 (ErrorBody ''Server error'')
   \<and> response (api_chat example_env initial_state (Array []))
       \<noteq> HttpReply 400 (ErrorBody ''messages must be an array'')"
  using bad_request_iff_parsed_and_not_an_array [of example_env initial_state NotAnArray]
        bad_request_iff_parsed_and_not_an_array [of example_env initial_state "Array []"]
  by simp

text \<open>C7 as stated fails: an array whose entries lack \<open>role\<close> or \<open>content\<close> is not
  answered 400, neither by the handler as registered nor by its body, which hands the
  entries to the model as they are.\<close>

theorem entries_missing_fields_not_rejected:
  "response (api_chat example_env initial_state
               (Array [Entry None None, Entry (Some ''user'') None]))
     \<noteq> HttpReply 400 (ErrorBody ''messages must be an array'')
   \<and> response (chat_body example_env initial_state [Entry None None, Entry (Some ''user'') None])
       = HttpReply 200 (Reply ''ok'')"
proof -
  have "response (chat_body example_env initial_state [Entry None None, Entry (Some ''user'') None])
       = HttpReply 200 (Reply ''ok'')"
    by code_simp
  then show ?thesis by (simp add: api_chat_array)
qed

text \<open>
  The sequence the handler body sends. Whenever the body calls the model, the sequence
  is the runtime-context message, the persona message, at most one syllabus message, and
  then the conversation as received. The syllabus message is there exactly when the index
  loaded, detection on the last user message returned a course name other than the empty
  string, that course has a non-empty syllabus URL, and its text was retrieved.
\<close>

lemma outbound_is_context_then_conversation:
  assumes "llm_call (chat_body e st messages) = Some out"
  shows "(\<exists>c syllabusText.
            syllabus_retrieved e st messages c syllabusText
          \<and> out = [runtimeContextMessage e (lastUserText messages), systemMessage]
                    @ [syllabusContextMessage c syllabusText] @ messages)
         \<or> ((\<nexists>c syllabusText. syllabus_retrieved e st messages c syllabusText)
          \<and> out = [runtimeContextMessage e (lastUserText messages), systemMessage] @ messages)"
proof -
  obtain r st1 where g: "getSyllabiIndex e (now_index e) st = (r, st1)"
    by (cases "getSyllabiIndex e (now_index e) st")
  show ?thesis
  proof (cases r)
    case (Inl err)
    with g assms
    have "out = [runtimeContextMessage e (lastUserText messages), systemMessage] @ messages"
      by (simp add: chat_body_index_error call_model_llm_call outbound_of_def)
    moreover have "\<nexists>c syllabusText. syllabus_retrieved e st messages c syllabusText"
      using g Inl by (simp add: syllabus_retrieved_def)
    ultimately show ?thesis by blast
  next
    case (Inr indexObj)
    let ?d = "findCourseFromUserText (toLowerCase e) indexObj (lastUserText messages)"
    have na: "\<not> ambiguous ?d (lastUserText messages) indexObj"
    proof
      assume "ambiguous ?d (lastUserText messages) indexObj"
      with g Inr have "llm_call (chat_body e st messages) = None"
        by (simp add: chat_body_ambiguous)
      with assms show False by simp
    qed
    with g Inr assms
    have out: "out = outbound_of e messages (fst (load_syllabus e indexObj ?d st1))"
      by (simp add: chat_body_resolved call_model_llm_call)
    show ?thesis
    proof (cases "fst (load_syllabus e indexObj ?d st1)")
      case None
      have "\<nexists>c t. syllabus_retrieved e st messages c t"
      proof
        assume "\<exists>c t. syllabus_retrieved e st messages c t"
        then obtain c t m url where "?d = Some c" "c \<noteq> []" "map_of indexObj c = Some m"
          "syllabus_url m = Some url" "url \<noteq> []"
          "fst (getSyllabusText e (now_syllabus e) url st1) = Inr t"
          using g Inr by (auto simp add: syllabus_retrieved_def)
        then have "fst (load_syllabus e indexObj ?d st1) = Some (syllabusContextMessage c t)"
          by (cases "getSyllabusText e (now_syllabus e) url st1") (simp add: load_syllabus_def)
        with None show False by simp
      qed
      moreover from None out
      have "out = [runtimeContextMessage e (lastUserText messages), systemMessage] @ messages"
        by (simp add: outbound_of_def)
      ultimately show ?thesis by blast
    next
      case (Some s)
      then obtain c m url t where h: "?d = Some c" "c \<noteq> []" "map_of indexObj c = Some m"
        "syllabus_url m = Some url" "url \<noteq> []"
        "fst (getSyllabusText e (now_syllabus e) url st1) = Inr t"
        "s = syllabusContextMessage c t"
        by (auto simp add: load_syllabus_Some)
      have "syllabus_retrieved e st messages c t"
        unfolding syllabus_retrieved_def using g Inr h(1-6) by blast
      moreover from Some out h(7)
      have "out = [runtimeContextMessage e (lastUserText messages), systemMessage]
                    @ [syllabusContextMessage c t] @ messages"
        by (simp add: outbound_of_def)
      ultimately show ?thesis by blast
    qed
  qed
qed

lemma outbound_examples:
  "llm_call (chat_body example_env initial_state [user_message ''When is the INNO exam?''])
     = Some [runtimeContextMessage example_env ''When is the INNO exam?'', systemMessage,
             syllabusContextMessage ''Innovation Management'' ''Exam: 30 June'',
             user_message ''When is the INNO exam?'']
   \<and> (\<exists>c syllabusText.
         syllabus_retrieved example_env initial_state [user_message ''When is the INNO exam?'']
           c syllabusText)
   \<and> llm_call (chat_body example_env initial_state [user_message ''Hello''])
       = Some [runtimeContextMessage example_env ''Hello'', systemMessage, user_message ''Hello'']
   \<and> (\<nexists>c syllabusText.
         syllabus_retrieved example_env initial_state [user_message ''Hello''] c syllabusText)"
proof -
  let ?q = "[user_message ''When is the INNO exam?'']"
  let ?h = "[user_message ''Hello'']"
  let ?out = "[runtimeContextMessage example_env ''When is the INNO exam?'', systemMessage,
             syllabusContextMessage ''Innovation Management'' ''Exam: 30 June'',
             user_message ''When is the INNO exam?'']"
  let ?plain = "[runtimeContextMessage example_env ''Hello'', systemMessage, user_message ''Hello'']"
  have a: "llm_call (chat_body example_env initial_state ?q) = Some ?out"
    by code_simp
  have b: "llm_call (chat_body example_env initial_state ?h) = Some ?plain"
    by code_simp
  have tq: "lastUserText ?q = ''When is the INNO exam?''"
    by (simp add: lastUserText_def lastUser_def user_message_def)
  have th: "lastUserText ?h = ''Hello''"
    by (simp add: lastUserText_def lastUser_def user_message_def)
  from outbound_is_context_then_conversation [OF a]
  have 1: "\<exists>c syllabusText. syllabus_retrieved example_env initial_state ?q c syllabusText"
    by (auto simp add: tq)
  from outbound_is_context_then_conversation [OF b]
  have 2: "\<nexists>c syllabusText. syllabus_retrieved example_env initial_state ?h c syllabusText"
    by (auto simp add: th)
  from a b 1 2 show ?thesis by simp
qed

text \<open>
  A course whose name is the empty string is the one case in which the body detects a
  course through an alias and still sends no syllabus message. The only course of the
  index has that name; the last user message contains its alias, so detection returns the
  name, and the syllabus document is served. The handler body tests the detected name for
  truthiness, takes the empty name for no course and sends no syllabus message. The handler
  as registered does not reach the model call at all.
\<close>

lemma detected_unnamed_course_gets_no_syllabus:
  "fst (getSyllabiIndex unnamed_course_env (now_index unnamed_course_env) initial_state)
     = Inr unnamed_course_index
   \<and> findCourseFromUserText (toLowerCase unnamed_course_env) unnamed_course_index
       ''Where is the TIM syllabus?'' = Some []
   \<and> fst (getSyllabusText unnamed_course_env (now_syllabus unnamed_course_env)
            ''https://example.org/tim.txt''
            (snd (getSyllabiIndex unnamed_course_env (now_index unnamed_course_env) initial_state)))
       = Inr ''Exam: 30 June''
   \<and> llm_call (chat_body unnamed_course_env initial_state
                 [user_message ''Where is the TIM syllabus?''])
       = Some [runtimeContextMessage unnamed_course_env ''Where is the TIM syllabus?'',
               systemMessage, user_message ''Where is the TIM syllabus?'']
   \<and> llm_call (api_chat unnamed_course_env initial_state
                 (Array [user_message ''Where is the TIM syllabus?''])) = None"
proof -
  have "fst (getSyllabiIndex unnamed_course_env (now_index unnamed_course_env) initial_state)
     = Inr unnamed_course_index"
    by code_simp
  moreover have "findCourseFromUserText (toLowerCase unnamed_course_env) unnamed_course_index
       ''Where is the TIM syllabus?'' = Some []"
    by code_simp
  moreover have "fst (getSyllabusText unnamed_course_env (now_syllabus unnamed_course_env)
            ''https://example.org/tim.txt''
            (snd (getSyllabiIndex unnamed_course_env (now_index unnamed_course_env) initial_state)))
       = Inr ''Exam: 30 June''"
    by code_simp
  moreover have "llm_call (chat_body unnamed_course_env initial_state
                 [user_message ''Where is the TIM syllabus?''])
       = Some [runtimeContextMessage unnamed_course_env ''Where is the TIM syllabus?'',
               systemMessage, user_message ''Where is the TIM syllabus?'']"
    by code_simp
  ultimately show ?thesis by (simp add: api_chat_array)
qed

text \<open>
  Failing fetches inside the handler body. A throwing index fetch, or a throwing syllabus
  fetch for the detected course, is caught: no syllabus message is built and the model is
  called with exactly the runtime-context and persona messages in front of the conversation.
  The reply is 200 with the model's answer when that call returns, and 500 \<open>Server error\<close>
  when it throws; the fetch error itself is not reported.
\<close>

lemma fetch_failure_degrades_to_plain_context:
  assumes "fst (getSyllabiIndex e (now_index e) st) = Inl err
     \<or> (\<exists>indexObj st1 c m url.
           getSyllabiIndex e (now_index e) st = (Inr indexObj, st1)
         \<and> findCourseFromUserText (toLowerCase e) indexObj (lastUserText messages) = Some c
         \<and> c \<noteq> [] \<and> map_of indexObj c = Some m \<and> syllabus_url m = Some url \<and> url \<noteq> []
         \<and> fst (getSyllabusText e (now_syllabus e) url st1) = Inl err)"
  shows "llm_call (chat_body e st messages)
           = Some ([runtimeContextMessage e (lastUserText messages), systemMessage] @ messages)
         \<and> response (chat_body e st messages)
             = (case callLLM e ([runtimeContextMessage e (lastUserText messages), systemMessage]
                                 @ messages) of
                  Inr reply \<Rightarrow> HttpReply 200 (Reply reply)
                | Inl x \<Rightarrow> HttpReply 500 (ErrorBody ''Server error''))"
proof -
  let ?plain = "[runtimeContextMessage e (lastUserText messages), systemMessage] @ messages"
  have "\<exists>st'. chat_body e st messages = call_model e st' ?plain"
    using assms
  proof
    assume a: "fst (getSyllabiIndex e (now_index e) st) = Inl err"
    then obtain st1 where "getSyllabiIndex e (now_index e) st = (Inl err, st1)"
      by (cases "getSyllabiIndex e (now_index e) st") simp
    then have "chat_body e st messages = call_model e st1 ?plain"
      by (simp add: chat_body_index_error outbound_of_def)
    then show ?thesis by blast
  next
    assume "\<exists>indexObj st1 c m url.
           getSyllabiIndex e (now_index e) st = (Inr indexObj, st1)
         \<and> findCourseFromUserText (toLowerCase e) indexObj (lastUserText messages) = Some c
         \<and> c \<noteq> [] \<and> map_of indexObj c = Some m \<and> syllabus_url m = Some url \<and> url \<noteq> []
         \<and> fst (getSyllabusText e (now_syllabus e) url st1) = Inl err"
    then obtain indexObj st1 c m url where
      g: "getSyllabiIndex e (now_index e) st = (Inr indexObj, st1)" and
      d: "findCourseFromUserText (toLowerCase e) indexObj (lastUserText messages) = Some c" and
      c: "c \<noteq> []" and m: "map_of indexObj c = Some m" and
      u: "syllabus_url m = Some url" "url \<noteq> []" and
      f: "fst (getSyllabusText e (now_syllabus e) url st1) = Inl err"
      by blast
    have na: "\<not> ambiguous (findCourseFromUserText (toLowerCase e) indexObj (lastUserText messages))
                (lastUserText messages) indexObj"
      using d c by (simp add: ambiguous_def)
    have "fst (load_syllabus e indexObj (Some c) st1) = None"
      using c m u f by (simp add: load_syllabus_fetch_error)
    with chat_body_resolved [OF g na] d
    have "chat_body e st messages
            = call_model e (snd (load_syllabus e indexObj (Some c) st1)) ?plain"
      by (simp add: outbound_of_def)
    then show ?thesis by blast
  qed
  then obtain st' where "chat_body e st messages = call_model e st' ?plain" by blast
  then show ?thesis by (simp add: call_model_llm_call call_model_response)
qed

lemma fetch_failure_examples:
  "llm_call (chat_body unreachable_env initial_state [user_message ''When is the INNO exam?''])
     = Some [runtimeContextMessage unreachable_env ''When is the INNO exam?'', systemMessage,
             user_message ''When is the INNO exam?'']
   \<and> response (chat_body unreachable_env initial_state [user_message ''When is the INNO exam?''])
       = HttpReply 200 (Reply ''ok'')
   \<and> llm_call (chat_body syllabus_missing_env initial_state [user_message ''When is the INNO exam?''])
       = Some [runtimeContextMessage syllabus_missing_env ''When is the INNO exam?'', systemMessage,
               user_message ''When is the INNO exam?'']
   \<and> response (chat_body syllabus_missing_env initial_state [user_message ''When is the INNO exam?''])
       = HttpReply 200 (Reply ''ok'')"
proof -
  let ?msgs = "[user_message ''When is the INNO exam?'']"
  let ?m = "\<lparr> aliases = Some [''INNO'', []], syllabus_url = Some ''https://example.org/inno.txt'' \<rparr>"
  let ?st1 = "snd (getSyllabiIndex syllabus_missing_env (now_index syllabus_missing_env) initial_state)"
  have t: "lastUserText ?msgs = ''When is the INNO exam?''"
    by (simp add: lastUserText_def lastUser_def user_message_def)
  have a: "fst (getSyllabiIndex unreachable_env (now_index unreachable_env) initial_state)
             = Inl (Error ''Failed to fetch https://example.org/index.json: 503'')"
    by code_simp
  have llm1: "\<And>out. callLLM unreachable_env out = Inr ''ok''"
    by (simp add: callLLM_def unreachable_env_def example_env_def)
  have llm2: "\<And>out. callLLM syllabus_missing_env out = Inr ''ok''"
    by (simp add: callLLM_def syllabus_missing_env_def example_env_def)
  have b1: "fst (getSyllabiIndex syllabus_missing_env (now_index syllabus_missing_env) initial_state)
              = Inr example_index"
    by code_simp
  then have b: "getSyllabiIndex syllabus_missing_env (now_index syllabus_missing_env) initial_state
              = (Inr example_index, ?st1)"
    by (cases "getSyllabiIndex syllabus_missing_env (now_index syllabus_missing_env) initial_state")
       simp
  have d: "findCourseFromUserText (toLowerCase syllabus_missing_env) example_index
             (lastUserText ?msgs) = Some ''Innovation Management''"
    unfolding t by code_simp
  have m: "map_of example_index ''Innovation Management'' = Some ?m"
    by (simp add: example_index_def)
  have f: "fst (getSyllabusText syllabus_missing_env (now_syllabus syllabus_missing_env)
                  ''https://example.org/inno.txt''
                  (snd (getSyllabiIndex syllabus_missing_env (now_index syllabus_missing_env)
                          initial_state)))
             = Inl (Error ''Failed to fetch https://example.org/inno.txt: 404'')"
    by code_simp
  have second: "\<exists>indexObj st1 c m url.
           getSyllabiIndex syllabus_missing_env (now_index syllabus_missing_env) initial_state
             = (Inr indexObj, st1)
         \<and> findCourseFromUserText (toLowerCase syllabus_missing_env) indexObj (lastUserText ?msgs)
             = Some c
         \<and> c \<noteq> [] \<and> map_of indexObj c = Some m \<and> syllabus_url m = Some url \<and> url \<noteq> []
         \<and> fst (getSyllabusText syllabus_missing_env (now_syllabus syllabus_missing_env) url st1)
             = Inl (Error ''Failed to fetch https://example.org/inno.txt: 404'')"
    apply (rule exI [of _ example_index])
    apply (rule exI [of _ ?st1])
    apply (rule exI [of _ "''Innovation Management''"])
    apply (rule exI [of _ ?m])
    apply (rule exI [of _ "''https://example.org/inno.txt''"])
    using b d m f by simp
  from fetch_failure_degrades_to_plain_context
         [of unreachable_env initial_state
             "Error ''Failed to fetch https://example.org/index.json: 503''" ?msgs] a
  have 1: "llm_call (chat_body unreachable_env initial_state ?msgs)
             = Some [runtimeContextMessage unreachable_env ''When is the INNO exam?'', systemMessage,
                     user_message ''When is the INNO exam?'']
           \<and> response (chat_body unreachable_env initial_state ?msgs) = HttpReply 200 (Reply ''ok'')"
    by (simp add: t llm1)
  from fetch_failure_degrades_to_plain_context
         [of syllabus_missing_env initial_state
             "Error ''Failed to fetch https://example.org/inno.txt: 404''" ?msgs] second
  have 2: "llm_call (chat_body syllabus_missing_env initial_state ?msgs)
             = Some [runtimeContextMessage syllabus_missing_env ''When is the INNO exam?'',
                     systemMessage, user_message ''When is the INNO exam?'']
           \<and> response (chat_body syllabus_missing_env initial_state ?msgs)
               = HttpReply 200 (Reply ''ok'')"
    by (simp add: t llm2)
  from 1 2 show ?thesis by simp
qed

subsection \<open>Requests the specification describes and the handler answers 500\<close>

text \<open>
  C1 at a concrete request. The index lists two courses, the last user message matches no
  alias and passes the keyword test. The handler body answers with the clarification and
  calls no model; the handler as registered answers 500 \<open>Server error\<close>, because it throws
  at \<open>univieSemesterLabel(now)\<close> before it reaches that body.
\<close>

theorem ambiguous_request_answered_500:
  "fst (getSyllabiIndex example_env (now_index example_env) initial_state) = Inr example_index
   \<and> findCourseFromUserText (toLowerCase example_env) example_index ''When is the exam?'' = None
   \<and> needsCourse ''When is the exam?''
   \<and> length (map fst example_index) = 2
   \<and> response (chat_body example_env initial_state [user_message ''When is the exam?''])
       = HttpReply 200 (Reply (clarification [''Innovation Management'', ''Strategy'']))
   \<and> clarification [''Innovation Management'', ''Strategy'']
       = ''F'' @ [CHR 0xC3, CHR 0xBC]
         @ ''r welchen TIM-Kurs meinst du das? (Innovation Management / Strategy)''
   \<and> llm_call (chat_body example_env initial_state [user_message ''When is the exam?'']) = None
   \<and> api_chat example_env initial_state (Array [user_message ''When is the exam?''])
       = \<lparr> response = HttpReply 500 (ErrorBody ''Server error''), llm_call = None,
           final_state = initial_state \<rparr>"
proof -
  have "fst (getSyllabiIndex example_env (now_index example_env) initial_state) = Inr example_index"
    by code_simp
  moreover have "findCourseFromUserText (toLowerCase example_env) example_index ''When is the exam?'' = None"
    by code_simp
  moreover have "needsCourse ''When is the exam?''"
    by code_simp
  moreover have "length (map fst example_index) = 2"
    by (simp add: example_index_def)
  moreover have "response (chat_body example_env initial_state [user_message ''When is the exam?''])
       = HttpReply 200 (Reply (clarification [''Innovation Management'', ''Strategy'']))"
    by code_simp
  moreover have "clarification [''Innovation Management'', ''Strategy'']
       = ''F'' @ [CHR 0xC3, CHR 0xBC]
         @ ''r welchen TIM-Kurs meinst du das? (Innovation Management / Strategy)''"
    by (simp add: clarification_def)
  moreover have "llm_call (chat_body example_env initial_state [user_message ''When is the exam?'']) = None"
    by code_simp
  ultimately show ?thesis by (simp add: api_chat_array)
qed


text \<open>
  C6 at a concrete request. The index document cannot be fetched (503) and the model endpoint
  answers. The handler body catches the fetch error, calls the model with the runtime-context
  and persona messages in front of the conversation and replies 200 with the model's answer.
  The handler as registered throws at \<open>univieSemesterLabel(now)\<close> before the fetch is even
  tried, answers 500 and calls no model.
\<close>

theorem unreachable_documents_answered_500:
  "fst (getSyllabiIndex unreachable_env (now_index unreachable_env) initial_state)
     = Inl (Error ''Failed to fetch https://example.org/index.json: 503'')
   \<and> llm_call (chat_body unreachable_env initial_state [user_message ''When is the INNO exam?''])
       = Some [runtimeContextMessage unreachable_env ''When is the INNO exam?'', systemMessage,
               user_message ''When is the INNO exam?'']
   \<and> response (chat_body unreachable_env initial_state [user_message ''When is the INNO exam?''])
       = HttpReply 200 (Reply ''ok'')
   \<and> api_chat unreachable_env initial_state (Array [user_message ''When is the INNO exam?''])
       = \<lparr> response = HttpReply 500 (ErrorBody ''Server error''), llm_call = None,
           final_state = initial_state \<rparr>"
proof -
  have "fst (getSyllabiIndex unreachable_env (now_index unreachable_env) initial_state)
     = Inl (Error ''Failed to fetch https://example.org/index.json: 503'')"
    by code_simp
  moreover have "llm_call (chat_body unreachable_env initial_state
                   [user_message ''When is the INNO exam?''])
       = Some [runtimeContextMessage unreachable_env ''When is the INNO exam?'', systemMessage,
               user_message ''When is the INNO exam?'']"
    by code_simp
  moreover have "response (chat_body unreachable_env initial_state
                   [user_message ''When is the INNO exam?''])
       = HttpReply 200 (Reply ''ok'')"
    by code_simp
  ultimately show ?thesis by (simp add: api_chat_array)
qed

text \<open>
  C9 at a concrete request. The conversation holds one assistant message and no user
  message. The handler body takes the empty string as the detection text and calls the model
  with the two fixed messages in front of the conversation; the handler as registered
  answers 500 and calls no model.
\<close>

theorem no_user_message_answered_500:
  "lastUser [Entry (Some ''assistant'') (Some ''Welcome to TIM.'')] = None
   \<and> lastUserText [Entry (Some ''assistant'') (Some ''Welcome to TIM.'')] = []
   \<and> llm_call (chat_body example_env initial_state
                 [Entry (Some ''assistant'') (Some ''Welcome to TIM.'')])
       = Some [runtimeContextMessage example_env [], systemMessage,
               Entry (Some ''assistant'') (Some ''Welcome to TIM.'')]
   \<and> api_chat example_env initial_state (Array [Entry (Some ''assistant'') (Some ''Welcome to TIM.'')])
       = \<lparr> response = HttpReply 500 (ErrorBody ''Server error''), llm_call = None,
           final_state = initial_state \<rparr>"
proof -
  have "lastUser [Entry (Some ''assistant'') (Some ''Welcome to TIM.'')] = None"
    by (simp add: lastUser_def)
  moreover have "lastUserText [Entry (Some ''assistant'') (Some ''Welcome to TIM.'')] = []"
    by (simp add: lastUserText_def lastUser_def)
  moreover have "llm_call (chat_body example_env initial_state
                 [Entry (Some ''assistant'') (Some ''Welcome to TIM.'')])
       = Some [runtimeContextMessage example_env [], systemMessage,
               Entry (Some ''assistant'') (Some ''Welcome to TIM.'')]"
    by code_simp
  ultimately show ?thesis by (simp add: api_chat_array)
qed

text \<open>
  C10 at a concrete request. The provider is not \<open>openai\<close> and the request is ambiguous.
  The handler body answers with the clarification without reaching the provider check; the
  handler as registered answers 500 \<open>Server error\<close>.
\<close>

theorem ambiguous_request_other_provider_answered_500:
  "PROVIDER openrouter_env \<noteq> ''openai''
   \<and> ambiguous (findCourseFromUserText (toLowerCase openrouter_env) example_index
                  ''Which room is the exam in?'')
        ''Which room is the exam in?'' example_index
   \<and> response (chat_body openrouter_env initial_state [user_message ''Which room is the exam in?''])
       = HttpReply 200 (Reply (clarification [''Innovation Management'', ''Strategy'']))
   \<and> response (api_chat openrouter_env initial_state
                 (Array [user_message ''Which room is the exam in?'']))
       = HttpReply 500 (ErrorBody ''Server error'')"
proof -
  have "PROVIDER openrouter_env \<noteq> ''openai''"
    by (simp add: openrouter_env_def example_env_def)
  moreover have "ambiguous (findCourseFromUserText (toLowerCase openrouter_env) example_index
                  ''Which room is the exam in?'')
        ''Which room is the exam in?'' example_index"
    by code_simp
  moreover have "response (chat_body openrouter_env initial_state
                   [user_message ''Which room is the exam in?''])
       = HttpReply 200 (Reply (clarification [''Innovation Management'', ''Strategy'']))"
    by code_simp
  ultimately show ?thesis by (simp add: api_chat_array)
qed

end
